theory Spec2Isabelle
  imports Main
begin

section \<open>Data model\<close>

text \<open>
  The three tables of the schema. A date is the millisecond count of a JavaScript
  \<open>Date\<close>; an optional column holds \<open>None\<close> for SQL NULL. The actions insert
  questions and responses from an object that has no \<open>id\<close> entry, so the key column
  of those two tables is modelled as optional: \<open>None\<close> is a row stored without a key.
\<close>

type_synonym date = int

record InterviewSession =
  s_id :: string
  s_userId :: string
  s_title :: string
  s_jobTitle :: "string option"
  s_companyName :: "string option"
  s_mode :: "string option"
  s_scheduledAt :: "date option"
  s_durationMinutes :: "int option"
  s_createdAt :: date
  s_updatedAt :: date

record InterviewQuestion =
  q_id :: "string option"
  q_sessionId :: string
  q_orderIndex :: int
  q_question :: string
  q_idealAnswer :: "string option"
  q_createdAt :: date

record InterviewResponse =
  r_id :: "string option"
  r_sessionId :: string
  r_questionId :: string
  r_answer :: string
  r_score :: "int option"
  r_feedback :: "string option"
  r_createdAt :: date

datatype table = InterviewSessions | InterviewQuestions | InterviewResponses

text \<open>Every data-access call an action awaits is recorded, in order, in \<open>calls\<close>.\<close>

datatype call = Select table | Insert table | Update table | Delete table

record db =
  sessions :: "InterviewSession list"
  questions :: "InterviewQuestion list"
  responses :: "InterviewResponse list"
  calls :: "call list"

section \<open>The request, errors and environment\<close>

record App_User =
  user_id :: string

record App_Locals =
  user :: "App_User option"

record ActionAPIContext =
  locals :: "App_Locals option"

datatype error_code = UNAUTHORIZED | NOT_FOUND

text \<open>
  \<open>ActionError\<close> is what the handlers throw themselves; \<open>StoreError\<close> is the
  exception of the data store when an insert violates a constraint of the schema.
\<close>

datatype error = ActionError error_code string | StoreError

text \<open>
  What a handler reads from outside the database: \<open>newDate env n\<close> is the value of the
  \<open>n\<close>-th evaluation of \<open>new Date()\<close> in the run of the handler (counted from 0),
  \<open>randomUUID env\<close> the value of \<open>crypto.randomUUID()\<close>, and \<open>nullKeys env\<close> tells
  whether the engine stores a row whose text primary key is NULL (SQLite does) or
  rejects it.
\<close>

record env =
  newDate :: "nat \<Rightarrow> date"
  randomUUID :: string
  nullKeys :: bool

definition requireUser :: "ActionAPIContext \<Rightarrow> error + App_User" where
  "requireUser ctx =
     (case (case locals ctx of None \<Rightarrow> None | Some l \<Rightarrow> user l) of
        None \<Rightarrow> Inl (ActionError UNAUTHORIZED ''You must be signed in to perform this action.'')
      | Some u \<Rightarrow> Inr u)"

text \<open>
  \<open>const [x] = rows\<close> binds the first row, or \<open>undefined\<close> when there is none.
  \<open>if (input.id)\<close> tests a JavaScript string for truthiness: the empty string counts
  as absent.
\<close>

definition first :: "'a list \<Rightarrow> 'a option" where
  "first rows = (case rows of [] \<Rightarrow> None | x # _ \<Rightarrow> Some x)"

definition truthy :: "string option \<Rightarrow> string option" where
  "truthy v = (case v of None \<Rightarrow> None | Some s \<Rightarrow> if s = [] then None else Some s)"

section \<open>The data-access calls\<close>

text \<open>
  The query builder over the three tables. \<open>select\<close> returns the rows that satisfy
  the condition, in storage order; \<open>update\<close> applies the assignment to every such row
  and returns the updated rows; \<open>delete\<close> removes them and returns them. An insert
  into \<open>InterviewSessions\<close> fails when the primary key is already present. The
  \<open>references\<close> of the schema make a delete fail, removing nothing, when a row it
  would remove is still referenced: a session by the \<open>sessionId\<close> of a question or
  of a response, a question by the \<open>questionId\<close> of a response. The actions look up
  the rows an insert or update refers to before they issue it, so those statements are
  not checked again.
\<close>

definition logged :: "call \<Rightarrow> db \<Rightarrow> db" where
  "logged c d = d\<lparr>calls := calls d @ [c]\<rparr>"

definition selectSessions :: "(InterviewSession \<Rightarrow> bool) \<Rightarrow> db \<Rightarrow> InterviewSession list \<times> db" where
  "selectSessions P d = (filter P (sessions d), logged (Select InterviewSessions) d)"

definition selectQuestions :: "(InterviewQuestion \<Rightarrow> bool) \<Rightarrow> db \<Rightarrow> InterviewQuestion list \<times> db" where
  "selectQuestions P d = (filter P (questions d), logged (Select InterviewQuestions) d)"

definition selectResponses :: "(InterviewResponse \<Rightarrow> bool) \<Rightarrow> db \<Rightarrow> InterviewResponse list \<times> db" where
  "selectResponses P d = (filter P (responses d), logged (Select InterviewResponses) d)"

definition insertSessions :: "InterviewSession \<Rightarrow> db \<Rightarrow> (error + InterviewSession list) \<times> db" where
  "insertSessions row d =
     (if s_id row \<in> set (map s_id (sessions d))
      then (Inl StoreError, logged (Insert InterviewSessions) d)
      else (Inr [row], logged (Insert InterviewSessions) (d\<lparr>sessions := sessions d @ [row]\<rparr>)))"

definition updateSessions ::
  "(InterviewSession \<Rightarrow> InterviewSession) \<Rightarrow> (InterviewSession \<Rightarrow> bool) \<Rightarrow> db \<Rightarrow> InterviewSession list \<times> db" where
  "updateSessions f P d =
     (map f (filter P (sessions d)),
      logged (Update InterviewSessions) (d\<lparr>sessions := map (\<lambda>s. if P s then f s else s) (sessions d)\<rparr>))"

definition deleteSessions ::
  "(InterviewSession \<Rightarrow> bool) \<Rightarrow> db \<Rightarrow> (error + InterviewSession list) \<times> db" where
  "deleteSessions P d =
     (if \<exists>s\<in>set (filter P (sessions d)).
           (\<exists>q\<in>set (questions d). q_sessionId q = s_id s)
           \<or> (\<exists>r\<in>set (responses d). r_sessionId r = s_id s)
      then (Inl StoreError, logged (Delete InterviewSessions) d)
      else (Inr (filter P (sessions d)),
            logged (Delete InterviewSessions) (d\<lparr>sessions := filter (\<lambda>s. \<not> P s) (sessions d)\<rparr>)))"

definition updateQuestions ::
  "(InterviewQuestion \<Rightarrow> InterviewQuestion) \<Rightarrow> (InterviewQuestion \<Rightarrow> bool) \<Rightarrow> db \<Rightarrow> InterviewQuestion list \<times> db" where
  "updateQuestions f P d =
     (map f (filter P (questions d)),
      logged (Update InterviewQuestions) (d\<lparr>questions := map (\<lambda>q. if P q then f q else q) (questions d)\<rparr>))"

definition deleteQuestions ::
  "(InterviewQuestion \<Rightarrow> bool) \<Rightarrow> db \<Rightarrow> (error + InterviewQuestion list) \<times> db" where
  "deleteQuestions P d =
     (if \<exists>q\<in>set (filter P (questions d)). \<exists>r\<in>set (responses d). Some (r_questionId r) = q_id q
      then (Inl StoreError, logged (Delete InterviewQuestions) d)
      else (Inr (filter P (questions d)),
            logged (Delete InterviewQuestions) (d\<lparr>questions := filter (\<lambda>q. \<not> P q) (questions d)\<rparr>)))"

definition updateResponses ::
  "(InterviewResponse \<Rightarrow> InterviewResponse) \<Rightarrow> (InterviewResponse \<Rightarrow> bool) \<Rightarrow> db \<Rightarrow> InterviewResponse list \<times> db" where
  "updateResponses f P d =
     (map f (filter P (responses d)),
      logged (Update InterviewResponses) (d\<lparr>responses := map (\<lambda>r. if P r then f r else r) (responses d)\<rparr>))"

text \<open>
  The objects \<open>baseValues\<close> of \<open>saveQuestion\<close> and \<open>saveResponse\<close>: they have no
  \<open>id\<close> entry, and an optional entry is \<open>None\<close> when the input left it undefined.
\<close>

record question_values =
  qv_sessionId :: string
  qv_orderIndex :: int
  qv_question :: string
  qv_idealAnswer :: "string option"
  qv_createdAt :: date

record response_values =
  rv_sessionId :: string
  rv_questionId :: string
  rv_answer :: string
  rv_score :: "int option"
  rv_feedback :: "string option"
  rv_createdAt :: date

text \<open>
  \<open>.values(baseValues)\<close> of an insert: a column with no entry, or an undefined one,
  is stored as NULL. The key column has no entry, so the row has no key, and the engine
  decides (\<open>nullKeys\<close>) whether it stores the row.
\<close>

definition insertQuestions :: "env \<Rightarrow> question_values \<Rightarrow> db \<Rightarrow> (error + InterviewQuestion list) \<times> db" where
  "insertQuestions e v d =
     (let row = \<lparr>q_id = None, q_sessionId = qv_sessionId v, q_orderIndex = qv_orderIndex v,
                 q_question = qv_question v, q_idealAnswer = qv_idealAnswer v,
                 q_createdAt = qv_createdAt v\<rparr>
      in if nullKeys e
         then (Inr [row], logged (Insert InterviewQuestions) (d\<lparr>questions := questions d @ [row]\<rparr>))
         else (Inl StoreError, logged (Insert InterviewQuestions) d))"

definition insertResponses :: "env \<Rightarrow> response_values \<Rightarrow> db \<Rightarrow> (error + InterviewResponse list) \<times> db" where
  "insertResponses e v d =
     (let row = \<lparr>r_id = None, r_sessionId = rv_sessionId v, r_questionId = rv_questionId v,
                 r_answer = rv_answer v, r_score = rv_score v, r_feedback = rv_feedback v,
                 r_createdAt = rv_createdAt v\<rparr>
      in if nullKeys e
         then (Inr [row], logged (Insert InterviewResponses) (d\<lparr>responses := responses d @ [row]\<rparr>))
         else (Inl StoreError, logged (Insert InterviewResponses) d))"

text \<open>
  \<open>.set(baseValues)\<close> of an update: the query builder ignores an entry whose value is
  undefined, so that column keeps its stored value; the other entries are assigned.
\<close>

definition setQuestion :: "question_values \<Rightarrow> InterviewQuestion \<Rightarrow> InterviewQuestion" where
  "setQuestion v q =
     q\<lparr>q_sessionId := qv_sessionId v, q_orderIndex := qv_orderIndex v,
       q_question := qv_question v,
       q_idealAnswer := (case qv_idealAnswer v of None \<Rightarrow> q_idealAnswer q | Some a \<Rightarrow> Some a),
       q_createdAt := qv_createdAt v\<rparr>"

definition setResponse :: "response_values \<Rightarrow> InterviewResponse \<Rightarrow> InterviewResponse" where
  "setResponse v r =
     r\<lparr>r_sessionId := rv_sessionId v, r_questionId := rv_questionId v,
       r_answer := rv_answer v,
       r_score := (case rv_score v of None \<Rightarrow> r_score r | Some n \<Rightarrow> Some n),
       r_feedback := (case rv_feedback v of None \<Rightarrow> r_feedback r | Some f \<Rightarrow> Some f),
       r_createdAt := rv_createdAt v\<rparr>"

text \<open>
  \<open>updateData\<close> of \<open>updateSession\<close> is a \<open>Record<string, unknown>\<close> filled in a
  loop: a list of column and value, in the order of the entries.
\<close>

datatype session_column = Title | JobTitle | CompanyName | Mode | ScheduledAt | DurationMinutes | UpdatedAt

datatype val = Text string | Number int | Date date

fun assignSession :: "InterviewSession \<Rightarrow> session_column \<times> val \<Rightarrow> InterviewSession" where
  "assignSession s (Title, Text t) = s\<lparr>s_title := t\<rparr>"
| "assignSession s (JobTitle, Text t) = s\<lparr>s_jobTitle := Some t\<rparr>"
| "assignSession s (CompanyName, Text t) = s\<lparr>s_companyName := Some t\<rparr>"
| "assignSession s (Mode, Text t) = s\<lparr>s_mode := Some t\<rparr>"
| "assignSession s (ScheduledAt, Date t) = s\<lparr>s_scheduledAt := Some t\<rparr>"
| "assignSession s (DurationMinutes, Number n) = s\<lparr>s_durationMinutes := Some n\<rparr>"
| "assignSession s (UpdatedAt, Date t) = s\<lparr>s_updatedAt := t\<rparr>"
| "assignSession s _ = s"

definition setSession :: "(session_column \<times> val) list \<Rightarrow> InterviewSession \<Rightarrow> InterviewSession" where
  "setSession entries s = foldl assignSession s entries"

section \<open>Session actions\<close>

record createSession_input =
  cs_id :: "string option"
  cs_title :: string
  cs_jobTitle :: "string option"
  cs_companyName :: "string option"
  cs_mode :: "string option"
  cs_scheduledAt :: "date option"
  cs_durationMinutes :: "int option"

definition createSession ::
  "env \<Rightarrow> ActionAPIContext \<Rightarrow> createSession_input \<Rightarrow> db \<Rightarrow> (error + InterviewSession option) \<times> db" where
  "createSession e ctx input d =
     (case requireUser ctx of
        Inl err \<Rightarrow> (Inl err, d)
      | Inr u \<Rightarrow>
          (case insertSessions
                  \<lparr>s_id = (case cs_id input of Some i \<Rightarrow> i | None \<Rightarrow> randomUUID e),
                   s_userId = user_id u,
                   s_title = cs_title input,
                   s_jobTitle = cs_jobTitle input,
                   s_companyName = cs_companyName input,
                   s_mode = cs_mode input,
                   s_scheduledAt = cs_scheduledAt input,
                   s_durationMinutes = cs_durationMinutes input,
                   s_createdAt = newDate e 0,
                   s_updatedAt = newDate e 1\<rparr> d of
             (Inl err, d1) \<Rightarrow> (Inl err, d1)
           | (Inr rows, d1) \<Rightarrow> (Inr (first rows), d1)))"

record updateSession_input =
  us_id :: string
  us_title :: "string option"
  us_jobTitle :: "string option"
  us_companyName :: "string option"
  us_mode :: "string option"
  us_scheduledAt :: "date option"
  us_durationMinutes :: "int option"

text \<open>\<open>Object.entries(rest)\<close>: the input without its \<open>id\<close>, an undefined value as \<open>None\<close>.\<close>

definition rest :: "updateSession_input \<Rightarrow> (session_column \<times> val option) list" where
  "rest input =
     [(Title, map_option Text (us_title input)),
      (JobTitle, map_option Text (us_jobTitle input)),
      (CompanyName, map_option Text (us_companyName input)),
      (Mode, map_option Text (us_mode input)),
      (ScheduledAt, map_option Date (us_scheduledAt input)),
      (DurationMinutes, map_option Number (us_durationMinutes input))]"

text \<open>The loop that copies the entries whose value is not undefined.\<close>

fun updateData :: "(session_column \<times> val option) list \<Rightarrow> (session_column \<times> val) list" where
  "updateData [] = []"
| "updateData ((key, None) # entries) = updateData entries"
| "updateData ((key, Some v) # entries) = (key, v) # updateData entries"

definition updateSession ::
  "env \<Rightarrow> ActionAPIContext \<Rightarrow> updateSession_input \<Rightarrow> db \<Rightarrow> (error + InterviewSession option) \<times> db" where
  "updateSession e ctx input d =
     (case requireUser ctx of
        Inl err \<Rightarrow> (Inl err, d)
      | Inr u \<Rightarrow>
          (case selectSessions (\<lambda>s. s_id s = us_id input \<and> s_userId s = user_id u) d of
             (rows, d1) \<Rightarrow>
               (case first (take 1 rows) of
                  None \<Rightarrow> (Inl (ActionError NOT_FOUND ''Session not found.''), d1)
                | Some existing \<Rightarrow>
                    if length (updateData (rest input)) = 0 then (Inr (Some existing), d1)
                    else
                      (case updateSessions
                              (setSession (updateData (rest input) @ [(UpdatedAt, Date (newDate e 0))]))
                              (\<lambda>s. s_id s = us_id input \<and> s_userId s = user_id u) d1 of
                         (updated, d2) \<Rightarrow> (Inr (first updated), d2)))))"

definition listSessions :: "ActionAPIContext \<Rightarrow> db \<Rightarrow> (error + InterviewSession list) \<times> db" where
  "listSessions ctx d =
     (case requireUser ctx of
        Inl err \<Rightarrow> (Inl err, d)
      | Inr u \<Rightarrow>
          (case selectSessions (\<lambda>s. s_userId s = user_id u) d of
             (rows, d1) \<Rightarrow> (Inr rows, d1)))"

definition deleteSession :: "ActionAPIContext \<Rightarrow> string \<Rightarrow> db \<Rightarrow> (error + InterviewSession) \<times> db" where
  "deleteSession ctx input_id d =
     (case requireUser ctx of
        Inl err \<Rightarrow> (Inl err, d)
      | Inr u \<Rightarrow>
          (case deleteSessions (\<lambda>s. s_id s = input_id \<and> s_userId s = user_id u) d of
             (Inl err, d1) \<Rightarrow> (Inl err, d1)
           | (Inr rows, d1) \<Rightarrow>
               (case first rows of
                  None \<Rightarrow> (Inl (ActionError NOT_FOUND ''Session not found.''), d1)
                | Some deleted \<Rightarrow> (Inr deleted, d1))))"

section \<open>Question actions\<close>

record saveQuestion_input =
  sq_id :: "string option"
  sq_sessionId :: string
  sq_orderIndex :: int
  sq_question :: string
  sq_idealAnswer :: "string option"

definition saveQuestion ::
  "env \<Rightarrow> ActionAPIContext \<Rightarrow> saveQuestion_input \<Rightarrow> db \<Rightarrow> (error + InterviewQuestion option) \<times> db" where
  "saveQuestion e ctx input d =
     (case requireUser ctx of
        Inl err \<Rightarrow> (Inl err, d)
      | Inr u \<Rightarrow>
          (case selectSessions (\<lambda>s. s_id s = sq_sessionId input \<and> s_userId s = user_id u) d of
             (rows, d1) \<Rightarrow>
               (case first (take 1 rows) of
                  None \<Rightarrow> (Inl (ActionError NOT_FOUND ''Session not found.''), d1)
                | Some session \<Rightarrow>
                    (let baseValues =
                           \<lparr>qv_sessionId = sq_sessionId input,
                            qv_orderIndex = sq_orderIndex input,
                            qv_question = sq_question input,
                            qv_idealAnswer = sq_idealAnswer input,
                            qv_createdAt = newDate e 0\<rparr>
                     in case truthy (sq_id input) of
                          Some i \<Rightarrow>
                            (case selectQuestions (\<lambda>q. q_id q = Some i) d1 of
                               (found, d2) \<Rightarrow>
                                 (case first (take 1 found) of
                                    None \<Rightarrow> (Inl (ActionError NOT_FOUND ''Question not found.''), d2)
                                  | Some existing \<Rightarrow>
                                      if q_sessionId existing \<noteq> sq_sessionId input
                                      then (Inl (ActionError NOT_FOUND ''Question not found.''), d2)
                                      else
                                        (case updateQuestions (setQuestion baseValues) (\<lambda>q. q_id q = Some i) d2 of
                                           (updated, d3) \<Rightarrow> (Inr (first updated), d3))))
                        | None \<Rightarrow>
                            (case insertQuestions e baseValues d1 of
                               (Inl err, d2) \<Rightarrow> (Inl err, d2)
                             | (Inr inserted, d2) \<Rightarrow> (Inr (first inserted), d2))))))"

record deleteQuestion_input =
  dq_id :: string
  dq_sessionId :: string

definition deleteQuestion ::
  "ActionAPIContext \<Rightarrow> deleteQuestion_input \<Rightarrow> db \<Rightarrow> (error + InterviewQuestion) \<times> db" where
  "deleteQuestion ctx input d =
     (case requireUser ctx of
        Inl err \<Rightarrow> (Inl err, d)
      | Inr u \<Rightarrow>
          (case selectSessions (\<lambda>s. s_id s = dq_sessionId input \<and> s_userId s = user_id u) d of
             (rows, d1) \<Rightarrow>
               (case first (take 1 rows) of
                  None \<Rightarrow> (Inl (ActionError NOT_FOUND ''Session not found.''), d1)
                | Some session \<Rightarrow>
                    (case deleteQuestions
                            (\<lambda>q. q_id q = Some (dq_id input) \<and> q_sessionId q = dq_sessionId input) d1 of
                       (Inl err, d2) \<Rightarrow> (Inl err, d2)
                     | (Inr gone, d2) \<Rightarrow>
                         (case first gone of
                            None \<Rightarrow> (Inl (ActionError NOT_FOUND ''Question not found.''), d2)
                          | Some deleted \<Rightarrow> (Inr deleted, d2))))))"

section \<open>Response actions\<close>

record saveResponse_input =
  sr_id :: "string option"
  sr_sessionId :: string
  sr_questionId :: string
  sr_answer :: string
  sr_score :: "int option"
  sr_feedback :: "string option"

definition saveResponse ::
  "env \<Rightarrow> ActionAPIContext \<Rightarrow> saveResponse_input \<Rightarrow> db \<Rightarrow> (error + InterviewResponse option) \<times> db" where
  "saveResponse e ctx input d =
     (case requireUser ctx of
        Inl err \<Rightarrow> (Inl err, d)
      | Inr u \<Rightarrow>
          (case selectSessions (\<lambda>s. s_id s = sr_sessionId input \<and> s_userId s = user_id u) d of
             (rows, d1) \<Rightarrow>
               (case first (take 1 rows) of
                  None \<Rightarrow> (Inl (ActionError NOT_FOUND ''Session not found.''), d1)
                | Some session \<Rightarrow>
                    (case selectQuestions
                            (\<lambda>q. q_id q = Some (sr_questionId input) \<and> q_sessionId q = sr_sessionId input) d1 of
                       (qrows, d2) \<Rightarrow>
                         (case first (take 1 qrows) of
                            None \<Rightarrow> (Inl (ActionError NOT_FOUND ''Question not found.''), d2)
                          | Some question \<Rightarrow>
                              (let baseValues =
                                     \<lparr>rv_sessionId = sr_sessionId input,
                                      rv_questionId = sr_questionId input,
                                      rv_answer = sr_answer input,
                                      rv_score = sr_score input,
                                      rv_feedback = sr_feedback input,
                                      rv_createdAt = newDate e 0\<rparr>
                               in case truthy (sr_id input) of
                                    Some i \<Rightarrow>
                                      (case selectResponses (\<lambda>r. r_id r = Some i) d2 of
                                         (found, d3) \<Rightarrow>
                                           (case first (take 1 found) of
                                              None \<Rightarrow> (Inl (ActionError NOT_FOUND ''Response not found.''), d3)
                                            | Some existing \<Rightarrow>
                                                if r_sessionId existing \<noteq> sr_sessionId input
                                                then (Inl (ActionError NOT_FOUND ''Response not found.''), d3)
                                                else
                                                  (case updateResponses (setResponse baseValues)
                                                          (\<lambda>r. r_id r = Some i) d3 of
                                                     (updated, d4) \<Rightarrow> (Inr (first updated), d4))))
                                  | None \<Rightarrow>
                                      (case insertResponses e baseValues d2 of
                                         (Inl err, d3) \<Rightarrow> (Inl err, d3)
                                       | (Inr inserted, d3) \<Rightarrow> (Inr (first inserted), d3))))))))"

record listResponses_input =
  lr_sessionId :: "string option"
  lr_questionId :: "string option"

text \<open>\<open>input?.sessionId\<close> and \<open>input?.questionId\<close>: undefined when there is no input.\<close>

definition input_sessionId :: "listResponses_input option \<Rightarrow> string option" where
  "input_sessionId input = (case input of None \<Rightarrow> None | Some i \<Rightarrow> lr_sessionId i)"

definition input_questionId :: "listResponses_input option \<Rightarrow> string option" where
  "input_questionId input = (case input of None \<Rightarrow> None | Some i \<Rightarrow> lr_questionId i)"

definition listResponses ::
  "ActionAPIContext \<Rightarrow> listResponses_input option \<Rightarrow> db \<Rightarrow> (error + InterviewResponse list) \<times> db" where
  "listResponses ctx input d =
     (case requireUser ctx of
        Inl err \<Rightarrow> (Inl err, d)
      | Inr u \<Rightarrow>
          (case selectSessions (\<lambda>s. s_userId s = user_id u) d of
             (owned, d1) \<Rightarrow>
               (let allowedSessionIds = set (map s_id owned);
                    sessionId = truthy (input_sessionId input);
                    questionId = truthy (input_questionId input)
                in if (case sessionId of None \<Rightarrow> False | Some sid \<Rightarrow> sid \<notin> allowedSessionIds)
                   then (Inl (ActionError NOT_FOUND ''Session not found.''), d1)
                   else
                     (case selectResponses (\<lambda>r. True) d1 of
                        (all_responses, d2) \<Rightarrow>
                          (Inr (filter
                                  (\<lambda>r. r_sessionId r \<in> allowedSessionIds
                                       \<and> (case sessionId of None \<Rightarrow> True | Some sid \<Rightarrow> r_sessionId r = sid)
                                       \<and> (case questionId of None \<Rightarrow> True | Some qid \<Rightarrow> r_questionId r = qid))
                                  all_responses),
                           d2)))))"

section \<open>Primary keys\<close>

text \<open>
  The keys present in a key column (a row stored without a key has none), and the
  invariant of the schema: within a table no key occurs twice.
\<close>

fun keys :: "string option list \<Rightarrow> string list" where
  "keys [] = []"
| "keys (None # ks) = keys ks"
| "keys (Some k # ks) = k # keys ks"

definition primaryKeys :: "db \<Rightarrow> bool" where
  "primaryKeys d =
     (distinct (map s_id (sessions d))
      \<and> distinct (keys (map q_id (questions d)))
      \<and> distinct (keys (map r_id (responses d))))"

section \<open>Example states\<close>

text \<open>
  User A owns the sessions S and S2, user B owns T. Question Q and response R belong to
  S, question P and response X to T.
\<close>

definition alice :: App_User where
  "alice = \<lparr>user_id = ''A''\<rparr>"

definition signedIn :: ActionAPIContext where
  "signedIn = \<lparr>locals = Some \<lparr>user = Some alice\<rparr>\<rparr>"

definition signedOut :: ActionAPIContext where
  "signedOut = \<lparr>locals = Some \<lparr>user = None\<rparr>\<rparr>"

definition ticking :: env where
  "ticking = \<lparr>newDate = (\<lambda>n. 2000 + int n), randomUUID = ''u-1'', nullKeys = True\<rparr>"

definition strict :: env where
  "strict = \<lparr>newDate = (\<lambda>n. 2000), randomUUID = ''u-1'', nullKeys = False\<rparr>"

definition sessionS :: InterviewSession where
  "sessionS = \<lparr>s_id = ''S'', s_userId = ''A'', s_title = ''Backend Interview'',
     s_jobTitle = Some ''Engineer'', s_companyName = None, s_mode = None, s_scheduledAt = None,
     s_durationMinutes = Some 45, s_createdAt = 1000, s_updatedAt = 1000\<rparr>"

definition sessionS2 :: InterviewSession where
  "sessionS2 = \<lparr>s_id = ''S2'', s_userId = ''A'', s_title = ''System Design'',
     s_jobTitle = None, s_companyName = None, s_mode = None, s_scheduledAt = None,
     s_durationMinutes = None, s_createdAt = 1100, s_updatedAt = 1100\<rparr>"

definition sessionT :: InterviewSession where
  "sessionT = \<lparr>s_id = ''T'', s_userId = ''B'', s_title = ''Frontend Interview'',
     s_jobTitle = None, s_companyName = None, s_mode = None, s_scheduledAt = None,
     s_durationMinutes = None, s_createdAt = 1200, s_updatedAt = 1200\<rparr>"

definition questionQ :: InterviewQuestion where
  "questionQ = \<lparr>q_id = Some ''Q'', q_sessionId = ''S'', q_orderIndex = 1,
     q_question = ''Tell me about yourself'', q_idealAnswer = Some ''Be brief'', q_createdAt = 1300\<rparr>"

definition questionP :: InterviewQuestion where
  "questionP = \<lparr>q_id = Some ''P'', q_sessionId = ''T'', q_orderIndex = 1,
     q_question = ''Why this company'', q_idealAnswer = None, q_createdAt = 1400\<rparr>"

definition responseR :: InterviewResponse where
  "responseR = \<lparr>r_id = Some ''R'', r_sessionId = ''S'', r_questionId = ''Q'',
     r_answer = ''I build backends'', r_score = Some 7, r_feedback = None, r_createdAt = 1500\<rparr>"

definition responseX :: InterviewResponse where
  "responseX = \<lparr>r_id = Some ''X'', r_sessionId = ''T'', r_questionId = ''P'',
     r_answer = ''I like it'', r_score = None, r_feedback = None, r_createdAt = 1600\<rparr>"

definition store0 :: db where
  "store0 = \<lparr>sessions = [sessionS, sessionT, sessionS2], questions = [questionQ, questionP],
     responses = [responseR, responseX], calls = []\<rparr>"

text \<open>The same state with a question and a response of session T whose id is the empty string.\<close>

definition questionE :: InterviewQuestion where
  "questionE = \<lparr>q_id = Some [], q_sessionId = ''T'', q_orderIndex = 2,
     q_question = ''Any questions'', q_idealAnswer = None, q_createdAt = 1450\<rparr>"

definition responseE :: InterviewResponse where
  "responseE = \<lparr>r_id = Some [], r_sessionId = ''T'', r_questionId = ''P'',
     r_answer = ''No'', r_score = None, r_feedback = None, r_createdAt = 1650\<rparr>"

definition storeE :: db where
  "storeE = \<lparr>sessions = [sessionS, sessionT, sessionS2], questions = [questionQ, questionP, questionE],
     responses = [responseR, responseX, responseE], calls = []\<rparr>"

text \<open>The first state with one more question, U of session S2, that no response answers.\<close>

definition questionU :: InterviewQuestion where
  "questionU = \<lparr>q_id = Some ''U'', q_sessionId = ''S2'', q_orderIndex = 1,
     q_question = ''Design a cache'', q_idealAnswer = None, q_createdAt = 1350\<rparr>"

definition store1 :: db where
  "store1 = \<lparr>sessions = [sessionS, sessionT, sessionS2], questions = [questionQ, questionP, questionU],
     responses = [responseR, responseX], calls = []\<rparr>"

lemmas example_defs =
  alice_def signedIn_def signedOut_def ticking_def strict_def sessionS_def sessionS2_def
  sessionT_def questionQ_def questionP_def responseR_def responseX_def store0_def
  questionE_def responseE_def storeE_def questionU_def store1_def

section \<open>Lemmas on the data-access calls\<close>

lemmas store_defs =
  selectSessions_def selectQuestions_def selectResponses_def insertSessions_def
  updateSessions_def updateQuestions_def
  updateResponses_def insertQuestions_def insertResponses_def logged_def
  first_def truthy_def Let_def

lemma first_take1: "first (take 1 rows) = first rows" "first (take (Suc 0) rows) = first rows"
  by (cases rows; simp add: first_def)+

lemma first_None: "first xs = None \<longleftrightarrow> xs = []"
  by (cases xs) (simp_all add: first_def)

lemma first_Cons: "first (x # xs) = Some x"
  by (simp add: first_def)

lemma first_filter_Some:
  assumes "\<exists>x\<in>set xs. P x"
  shows "\<exists>y. first (filter P xs) = Some y \<and> y \<in> set xs \<and> P y"
proof (cases "filter P xs")
  case Nil
  with assms show ?thesis by (simp add: filter_empty_conv)
next
  case (Cons y ys)
  then have "y \<in> set (filter P xs)" by simp
  then have "y \<in> set xs \<and> P y" by simp
  with Cons show ?thesis by (simp add: first_Cons)
qed

text \<open>A condition that fixes the key selects at most the one row that carries it.\<close>

lemma filter_key_unique:
  "distinct (map f xs) \<Longrightarrow> x \<in> set xs \<Longrightarrow> P x \<Longrightarrow> (\<And>y. P y \<Longrightarrow> f y = f x) \<Longrightarrow> filter P xs = [x]"
proof (induction xs)
  case Nil
  then show ?case by simp
next
  case (Cons a xs)
  from Cons.prems(1) have fa: "f a \<notin> f ` set xs" and dist: "distinct (map f xs)"
    by simp_all
  show ?case
  proof (cases "a = x")
    case True
    have "\<not> P y" if "y \<in> set xs" for y
    proof
      assume "P y"
      then have "f y = f a" using Cons.prems(4) True by simp
      with that fa show False by (metis imageI)
    qed
    then have "filter P xs = []" by (simp add: filter_empty_conv)
    with True Cons.prems(3) show ?thesis by simp
  next
    case False
    with Cons.prems(2) have xin: "x \<in> set xs" by simp
    have "\<not> P a"
    proof
      assume "P a"
      then have "f a = f x" using Cons.prems(4) by simp
      with xin fa show False by (metis imageI)
    qed
    moreover have "filter P xs = [x]"
      using Cons.IH [OF dist xin Cons.prems(3)] Cons.prems(4) by simp
    ultimately show ?thesis by simp
  qed
qed

lemma keys_member: "k \<in> set (keys ks) \<longleftrightarrow> Some k \<in> set ks"
  by (induction ks rule: keys.induct) auto

lemma filter_optkey_unique:
  "distinct (keys (map f xs)) \<Longrightarrow> x \<in> set xs \<Longrightarrow> f x = Some k \<Longrightarrow>
   filter (\<lambda>y. f y = Some k) xs = [x]"
proof (induction xs)
  case Nil
  then show ?case by simp
next
  case (Cons a xs)
  have notin: "f y \<noteq> Some k" if "f a = Some k" "y \<in> set xs" for y
  proof
    assume "f y = Some k"
    with that(2) have "k \<in> set (keys (map f xs))"
      by (simp add: keys_member) (metis imageI)
    with that(1) Cons.prems(1) show False by simp
  qed
  have dist: "distinct (keys (map f xs))"
    using Cons.prems(1) by (cases "f a") simp_all
  show ?case
  proof (cases "a = x")
    case True
    with Cons.prems(3) notin have "filter (\<lambda>y. f y = Some k) xs = []"
      by (simp add: filter_empty_conv)
    with True Cons.prems(3) show ?thesis by simp
  next
    case False
    with Cons.prems(2) have xin: "x \<in> set xs" by simp
    with notin Cons.prems(3) have "f a \<noteq> Some k" by blast
    then show ?thesis using Cons.IH [OF dist xin Cons.prems(3)] by simp
  qed
qed

lemma first_Nil: "first [] = None"
  by (simp add: first_def)

lemma key_rows:
  assumes "distinct (map f xs)" "x \<in> set xs" "Q x"
  shows "filter (\<lambda>y. f y = f x \<and> Q y) xs = [x]"
    and "filter (\<lambda>y. \<not> (f y = f x \<and> Q y)) xs = removeAll x xs"
proof -
  show "filter (\<lambda>y. f y = f x \<and> Q y) xs = [x]"
    using assms by (intro filter_key_unique [where f = f]) simp_all
  have "\<not> (f y = f x \<and> Q y) \<longleftrightarrow> x \<noteq> y" if "y \<in> set xs" for y
    using assms that by (auto simp: distinct_map dest: inj_onD)
  then show "filter (\<lambda>y. \<not> (f y = f x \<and> Q y)) xs = removeAll x xs"
    by (simp add: removeAll_filter_not_eq cong: filter_cong)
qed

lemma optkey_rows:
  assumes "distinct (keys (map f xs))" "x \<in> set xs" "f x = Some k" "Q x"
  shows "filter (\<lambda>y. f y = Some k \<and> Q y) xs = [x]"
    and "filter (\<lambda>y. \<not> (f y = Some k \<and> Q y)) xs = removeAll x xs"
proof -
  have one: "filter (\<lambda>y. f y = Some k) xs = [x]"
    using assms(1-3) by (rule filter_optkey_unique)
  have only: "f y = Some k \<longleftrightarrow> y = x" if "y \<in> set xs" for y
  proof
    assume "f y = Some k"
    with that have "y \<in> set (filter (\<lambda>y. f y = Some k) xs)" by simp
    then show "y = x" by (simp add: one)
  next
    assume "y = x"
    then show "f y = Some k" using assms(3) by simp
  qed
  have "filter (\<lambda>y. f y = Some k \<and> Q y) xs = filter (\<lambda>y. y = x) xs"
    using only assms(4) by (intro filter_cong) auto
  also have "\<dots> = filter (\<lambda>y. f y = Some k) xs"
    using only by (intro filter_cong) auto
  finally show "filter (\<lambda>y. f y = Some k \<and> Q y) xs = [x]"
    by (simp add: one)
  have "filter (\<lambda>y. \<not> (f y = Some k \<and> Q y)) xs = filter (\<lambda>y. x \<noteq> y) xs"
    using only assms(4) by (intro filter_cong) auto
  then show "filter (\<lambda>y. \<not> (f y = Some k \<and> Q y)) xs = removeAll x xs"
    by (simp add: removeAll_filter_not_eq)
qed


lemma first_filter_SomeD:
  assumes "first (filter P xs) = Some y"
  shows "y \<in> set xs \<and> P y \<and> (\<exists>ys. filter P xs = y # ys)"
proof (cases "filter P xs")
  case Nil
  with assms show ?thesis by (simp add: first_def)
next
  case (Cons z zs)
  with assms have "z = y" by (simp add: first_def)
  with Cons have eq: "filter P xs = y # zs" by simp
  then have "y \<in> set (filter P xs)" by simp
  then have "y \<in> set xs \<and> P y" by simp
  with eq show ?thesis by simp
qed

lemma filter_map_update:
  "(\<And>x. P x \<Longrightarrow> \<not> Q x \<and> \<not> Q (f x)) \<Longrightarrow>
   filter Q (map (\<lambda>x. if P x then f x else x) xs) = filter Q xs"
  by (induction xs) auto

text \<open>The assignment of \<open>updateSession\<close>, column by column.\<close>

lemma setSession_patch:
  "setSession (updateData (rest input) @ [(UpdatedAt, Date t)]) s =
     s\<lparr>s_title := (case us_title input of None \<Rightarrow> s_title s | Some x \<Rightarrow> x),
       s_jobTitle := (case us_jobTitle input of None \<Rightarrow> s_jobTitle s | Some x \<Rightarrow> Some x),
       s_companyName := (case us_companyName input of None \<Rightarrow> s_companyName s | Some x \<Rightarrow> Some x),
       s_mode := (case us_mode input of None \<Rightarrow> s_mode s | Some x \<Rightarrow> Some x),
       s_scheduledAt := (case us_scheduledAt input of None \<Rightarrow> s_scheduledAt s | Some x \<Rightarrow> Some x),
       s_durationMinutes := (case us_durationMinutes input of None \<Rightarrow> s_durationMinutes s | Some x \<Rightarrow> Some x),
       s_updatedAt := t\<rparr>"
  by (cases "us_title input"; cases "us_jobTitle input"; cases "us_companyName input";
      cases "us_mode input"; cases "us_scheduledAt input"; cases "us_durationMinutes input";
      simp add: setSession_def rest_def)

lemma updateData_empty:
  "updateData (rest input) = [] \<longleftrightarrow>
     us_title input = None \<and> us_jobTitle input = None \<and> us_companyName input = None \<and>
     us_mode input = None \<and> us_scheduledAt input = None \<and> us_durationMinutes input = None"
  by (cases "us_title input"; cases "us_jobTitle input"; cases "us_companyName input";
      cases "us_mode input"; cases "us_scheduledAt input"; cases "us_durationMinutes input";
      simp add: rest_def)


lemma truthy_Some: "truthy v = Some x \<longleftrightarrow> v = Some x \<and> x \<noteq> []"
  by (cases v) (auto simp: truthy_def)

text \<open>What the two deletes do when the condition selects no row, and when it selects one.\<close>

lemma deleteSessions_none:
  assumes h: "filter P (sessions d) = []"
  shows "deleteSessions P d = (Inr [], logged (Delete InterviewSessions) d)"
proof -
  from h have "filter (\<lambda>s. \<not> P s) (sessions d) = sessions d"
    by (simp add: filter_empty_conv filter_id_conv)
  then show ?thesis
    unfolding deleteSessions_def h by simp
qed

lemma deleteSessions_one:
  assumes h: "filter P (sessions d) = [row]"
  shows "deleteSessions P d =
           (if (\<exists>q\<in>set (questions d). q_sessionId q = s_id row)
               \<or> (\<exists>r\<in>set (responses d). r_sessionId r = s_id row)
            then (Inl StoreError, logged (Delete InterviewSessions) d)
            else (Inr [row],
                  logged (Delete InterviewSessions) (d\<lparr>sessions := filter (\<lambda>s. \<not> P s) (sessions d)\<rparr>)))"
  unfolding deleteSessions_def h by simp

lemma deleteSessions_referenced:
  assumes h: "\<exists>s\<in>set (filter P (sessions d)).
                (\<exists>q\<in>set (questions d). q_sessionId q = s_id s)
                \<or> (\<exists>r\<in>set (responses d). r_sessionId r = s_id s)"
  shows "deleteSessions P d = (Inl StoreError, logged (Delete InterviewSessions) d)"
  using h by (simp only: deleteSessions_def if_True)

lemma deleteQuestions_referenced:
  assumes h: "\<exists>q\<in>set (filter P (questions d)). \<exists>r\<in>set (responses d). Some (r_questionId r) = q_id q"
  shows "deleteQuestions P d = (Inl StoreError, logged (Delete InterviewQuestions) d)"
  using h by (simp only: deleteQuestions_def if_True)

lemma deleteQuestions_none:
  assumes h: "filter P (questions d) = []"
  shows "deleteQuestions P d = (Inr [], logged (Delete InterviewQuestions) d)"
proof -
  from h have "filter (\<lambda>q. \<not> P q) (questions d) = questions d"
    by (simp add: filter_empty_conv filter_id_conv)
  then show ?thesis
    unfolding deleteQuestions_def h by simp
qed

lemma deleteQuestions_one:
  assumes h: "filter P (questions d) = [row]"
  shows "deleteQuestions P d =
           (if \<exists>r\<in>set (responses d). Some (r_questionId r) = q_id row
            then (Inl StoreError, logged (Delete InterviewQuestions) d)
            else (Inr [row],
                  logged (Delete InterviewQuestions) (d\<lparr>questions := filter (\<lambda>q. \<not> P q) (questions d)\<rparr>)))"
  unfolding deleteQuestions_def h by simp

section \<open>Identity resolution\<close>

lemma requireUser_no_user:
  "(case locals ctx of None \<Rightarrow> None | Some l \<Rightarrow> user l) = None \<Longrightarrow>
   requireUser ctx = Inl (ActionError UNAUTHORIZED ''You must be signed in to perform this action.'')"
  by (simp add: requireUser_def)

lemma requireUser_signedIn: "requireUser signedIn = Inr alice"
  by (simp add: requireUser_def signedIn_def)

text \<open>
  C10. When the request carries no user identity, each of the eight actions fails with
  Unauthorized and hands back the database as it received it: no table has changed and
  no data-access call has been issued, not even a read.
\<close>

theorem unauthorized_before_data_access:
  assumes "(case locals ctx of None \<Rightarrow> None | Some l \<Rightarrow> user l) = None"
  shows "createSession e ctx ci d = (Inl (ActionError UNAUTHORIZED ''You must be signed in to perform this action.''), d)
       \<and> updateSession e ctx ui d = (Inl (ActionError UNAUTHORIZED ''You must be signed in to perform this action.''), d)
       \<and> listSessions ctx d = (Inl (ActionError UNAUTHORIZED ''You must be signed in to perform this action.''), d)
       \<and> deleteSession ctx di d = (Inl (ActionError UNAUTHORIZED ''You must be signed in to perform this action.''), d)
       \<and> saveQuestion e ctx qi d = (Inl (ActionError UNAUTHORIZED ''You must be signed in to perform this action.''), d)
       \<and> deleteQuestion ctx dqi d = (Inl (ActionError UNAUTHORIZED ''You must be signed in to perform this action.''), d)
       \<and> saveResponse e ctx ri d = (Inl (ActionError UNAUTHORIZED ''You must be signed in to perform this action.''), d)
       \<and> listResponses ctx li d = (Inl (ActionError UNAUTHORIZED ''You must be signed in to perform this action.''), d)"
  using requireUser_no_user [OF assms]
  by (simp add: createSession_def updateSession_def listSessions_def deleteSession_def
      saveQuestion_def deleteQuestion_def saveResponse_def listResponses_def)

theorem unauthorized_before_data_access_witness:
  "(case locals signedOut of None \<Rightarrow> None | Some l \<Rightarrow> user l) = None
   \<and> deleteSession signedOut ''S'' store0
       = (Inl (ActionError UNAUTHORIZED ''You must be signed in to perform this action.''), store0)
   \<and> listResponses signedOut None store0
       = (Inl (ActionError UNAUTHORIZED ''You must be signed in to perform this action.''), store0)
   \<and> saveQuestion ticking signedOut
         \<lparr>sq_id = Some ''Q'', sq_sessionId = ''S'', sq_orderIndex = 2, sq_question = ''Why'', sq_idealAnswer = None\<rparr>
         store0
       = (Inl (ActionError UNAUTHORIZED ''You must be signed in to perform this action.''), store0)"
proof -
  have h: "(case locals signedOut of None \<Rightarrow> None | Some l \<Rightarrow> user l) = None"
    by (simp add: signedOut_def)
  show ?thesis
    using h unauthorized_before_data_access [OF h, where d = store0 and di = "''S''" and e = ticking
        and qi = "\<lparr>sq_id = Some ''Q'', sq_sessionId = ''S'', sq_orderIndex = 2, sq_question = ''Why'', sq_idealAnswer = None\<rparr>"
        and li = None]
    by simp
qed

section \<open>Session actions: the empty patch\<close>

text \<open>
  C1. For a session row owned by the caller, \<open>updateSession\<close> with that row's id and
  none of the six mutable fields returns that very row and leaves every table as it was;
  the only data-access call is the lookup. In particular \<open>updatedAt\<close> keeps its value.
\<close>

theorem updateSession_empty_patch:
  assumes "requireUser ctx = Inr u"
    and "distinct (map s_id (sessions d))"
    and "row \<in> set (sessions d)"
    and "s_userId row = user_id u"
    and "us_id input = s_id row"
    and "us_title input = None" "us_jobTitle input = None" "us_companyName input = None"
        "us_mode input = None" "us_scheduledAt input = None" "us_durationMinutes input = None"
  shows "updateSession e ctx input d = (Inr (Some row), d\<lparr>calls := calls d @ [Select InterviewSessions]\<rparr>)"
proof -
  have "filter (\<lambda>s. s_id s = us_id input \<and> s_userId s = user_id u) (sessions d) = [row]"
    using assms(2-5) by (intro filter_key_unique [where f = s_id]) simp_all
  moreover have "updateData (rest input) = []"
    using assms(6-) by (simp add: rest_def)
  ultimately show ?thesis
    using assms(1)
    by (simp add: updateSession_def selectSessions_def logged_def first_def)
qed

theorem updateSession_empty_patch_witness:
  "requireUser signedIn = Inr alice
   \<and> distinct (map s_id (sessions store0))
   \<and> sessionS \<in> set (sessions store0)
   \<and> s_userId sessionS = user_id alice
   \<and> updateSession ticking signedIn
         \<lparr>us_id = ''S'', us_title = None, us_jobTitle = None, us_companyName = None,
          us_mode = None, us_scheduledAt = None, us_durationMinutes = None\<rparr> store0
       = (Inr (Some sessionS), store0\<lparr>calls := [Select InterviewSessions]\<rparr>)"
proof -
  have h: "distinct (map s_id (sessions store0))" "sessionS \<in> set (sessions store0)"
    "s_userId sessionS = user_id alice"
    by (simp_all add: example_defs)
  show ?thesis
    using h requireUser_signedIn
      updateSession_empty_patch [OF requireUser_signedIn h, of
        "\<lparr>us_id = ''S'', us_title = None, us_jobTitle = None, us_companyName = None,
          us_mode = None, us_scheduledAt = None, us_durationMinutes = None\<rparr>" ticking]
    by (simp add: sessionS_def store0_def)
qed

section \<open>Response actions: the question must belong to the session\<close>

text \<open>
  C3. For a signed-in caller, when no question row has the input's \<open>questionId\<close> as
  its id and the input's \<open>sessionId\<close> as its session, \<open>saveResponse\<close> fails with
  NotFound and no table changes: nothing is inserted or updated, the only calls are the
  two lookups (one, when the session itself is not the caller's). A \<open>questionId\<close> of
  another session is such a case.
\<close>

theorem saveResponse_question_in_session:
  assumes "requireUser ctx = Inr u"
    and "\<forall>q\<in>set (questions d). \<not> (q_id q = Some (sr_questionId input) \<and> q_sessionId q = sr_sessionId input)"
  shows "saveResponse e ctx input d =
           (if \<exists>s\<in>set (sessions d). s_id s = sr_sessionId input \<and> s_userId s = user_id u
            then (Inl (ActionError NOT_FOUND ''Question not found.''),
                  d\<lparr>calls := calls d @ [Select InterviewSessions, Select InterviewQuestions]\<rparr>)
            else (Inl (ActionError NOT_FOUND ''Session not found.''),
                  d\<lparr>calls := calls d @ [Select InterviewSessions]\<rparr>))"
proof (cases "\<exists>s\<in>set (sessions d). s_id s = sr_sessionId input \<and> s_userId s = user_id u")
  case True
  from first_filter_Some [OF True] obtain s where
    "first (filter (\<lambda>s. s_id s = sr_sessionId input \<and> s_userId s = user_id u) (sessions d)) = Some s"
    by blast
  moreover have "first (filter (\<lambda>q. q_id q = Some (sr_questionId input) \<and> q_sessionId q = sr_sessionId input)
                    (questions d)) = None"
    using assms(2) by (simp add: first_None filter_empty_conv)
  ultimately show ?thesis
    using assms(1) True
    by (simp add: saveResponse_def selectSessions_def selectQuestions_def logged_def first_take1)
next
  case False
  then have "first (filter (\<lambda>s. s_id s = sr_sessionId input \<and> s_userId s = user_id u) (sessions d)) = None"
    by (simp add: first_None filter_empty_conv)
  then show ?thesis
    using assms(1) False
    by (simp add: saveResponse_def selectSessions_def logged_def first_take1)
qed

text \<open>Question P exists, but in session T: a response for it under session S is refused.\<close>

theorem saveResponse_question_in_session_witness:
  "requireUser signedIn = Inr alice
   \<and> \<not> (\<exists>q\<in>set (questions store0). q_id q = Some ''P'' \<and> q_sessionId q = ''S'')
   \<and> questionP \<in> set (questions store0) \<and> q_id questionP = Some ''P''
   \<and> saveResponse ticking signedIn
         \<lparr>sr_id = None, sr_sessionId = ''S'', sr_questionId = ''P'', sr_answer = ''Because'',
          sr_score = None, sr_feedback = None\<rparr> store0
       = (Inl (ActionError NOT_FOUND ''Question not found.''),
          store0\<lparr>calls := [Select InterviewSessions, Select InterviewQuestions]\<rparr>)"
proof -
  have h: "\<forall>q\<in>set (questions store0). \<not> (q_id q = Some ''P'' \<and> q_sessionId q = ''S'')"
    by (simp add: example_defs)
  show ?thesis
    using h requireUser_signedIn
      saveResponse_question_in_session [of signedIn alice store0
        "\<lparr>sr_id = None, sr_sessionId = ''S'', sr_questionId = ''P'', sr_answer = ''Because'',
          sr_score = None, sr_feedback = None\<rparr>" ticking]
    by (simp add: example_defs)
qed

section \<open>Session actions: the sparse patch\<close>

text \<open>
  C8. When \<open>updateSession\<close> succeeds, the returned session differs from the stored
  row \<open>old\<close> it was looked up from only in the fields the input provides and in
  \<open>updatedAt\<close>: a field the input omits keeps its stored value (it is not nulled),
  and \<open>id\<close>, \<open>userId\<close> and \<open>createdAt\<close> are those of \<open>old\<close>. In the
  table, the columns \<open>id\<close>, \<open>userId\<close> and \<open>createdAt\<close> of all rows are as
  before, the rows with another id are untouched, and so are the other two tables.
  The returned session is a row of the table afterwards, and the table afterwards is
  the table before in which each row with the input's id and the caller as owner has
  the provided fields and \<open>updatedAt\<close> replaced, and nothing else.
\<close>

theorem updateSession_sparse_patch:
  assumes "updateSession e ctx input d = (Inr (Some s'), d')"
  shows "\<exists>u. requireUser ctx = Inr u
       \<and> (\<exists>old\<in>set (sessions d).
            s_id old = us_id input \<and> s_userId old = user_id u
          \<and> s_id s' = s_id old \<and> s_userId s' = s_userId old \<and> s_createdAt s' = s_createdAt old
          \<and> s_title s' = (case us_title input of None \<Rightarrow> s_title old | Some x \<Rightarrow> x)
          \<and> s_jobTitle s' = (case us_jobTitle input of None \<Rightarrow> s_jobTitle old | Some x \<Rightarrow> Some x)
          \<and> s_companyName s' = (case us_companyName input of None \<Rightarrow> s_companyName old | Some x \<Rightarrow> Some x)
          \<and> s_mode s' = (case us_mode input of None \<Rightarrow> s_mode old | Some x \<Rightarrow> Some x)
          \<and> s_scheduledAt s' = (case us_scheduledAt input of None \<Rightarrow> s_scheduledAt old | Some x \<Rightarrow> Some x)
          \<and> s_durationMinutes s' =
              (case us_durationMinutes input of None \<Rightarrow> s_durationMinutes old | Some x \<Rightarrow> Some x)
          \<and> s_updatedAt s' =
              (if us_title input = None \<and> us_jobTitle input = None \<and> us_companyName input = None \<and>
                  us_mode input = None \<and> us_scheduledAt input = None \<and> us_durationMinutes input = None
               then s_updatedAt old else newDate e 0))
       \<and> (map s_id (sessions d') = map s_id (sessions d)
       \<and> map s_userId (sessions d') = map s_userId (sessions d)
       \<and> map s_createdAt (sessions d') = map s_createdAt (sessions d)
       \<and> filter (\<lambda>s. s_id s \<noteq> us_id input) (sessions d') = filter (\<lambda>s. s_id s \<noteq> us_id input) (sessions d)
       \<and> questions d' = questions d \<and> responses d' = responses d
       \<and> s' \<in> set (sessions d'))
       \<and> sessions d' =
             map (\<lambda>s. if s_id s = us_id input \<and> s_userId s = user_id u
                      then s\<lparr>s_title := (case us_title input of None \<Rightarrow> s_title s | Some x \<Rightarrow> x),
                       s_jobTitle := (case us_jobTitle input of None \<Rightarrow> s_jobTitle s | Some x \<Rightarrow> Some x),
                       s_companyName :=
                         (case us_companyName input of None \<Rightarrow> s_companyName s | Some x \<Rightarrow> Some x),
                       s_mode := (case us_mode input of None \<Rightarrow> s_mode s | Some x \<Rightarrow> Some x),
                       s_scheduledAt :=
                         (case us_scheduledAt input of None \<Rightarrow> s_scheduledAt s | Some x \<Rightarrow> Some x),
                       s_durationMinutes :=
                         (case us_durationMinutes input of None \<Rightarrow> s_durationMinutes s
                          | Some x \<Rightarrow> Some x),
                       s_updatedAt :=
                         (if us_title input = None \<and> us_jobTitle input = None \<and>
                             us_companyName input = None \<and> us_mode input = None \<and>
                             us_scheduledAt input = None \<and> us_durationMinutes input = None
                          then s_updatedAt s else newDate e 0)\<rparr>
                      else s)
                 (sessions d)"
proof -
  from assms obtain u where ru: "requireUser ctx = Inr u"
    by (cases "requireUser ctx") (auto simp: updateSession_def)
  let ?P = "\<lambda>s. s_id s = us_id input \<and> s_userId s = user_id u"
  let ?f = "setSession (updateData (rest input) @ [(UpdatedAt, Date (newDate e 0))])"
  from assms ru obtain old where fo: "first (filter ?P (sessions d)) = Some old"
    by (cases "first (filter ?P (sessions d))")
       (auto simp: updateSession_def selectSessions_def first_take1)
  from first_filter_SomeD [OF fo] obtain more where
    old: "old \<in> set (sessions d)" "?P old" and sel: "filter ?P (sessions d) = old # more"
    by blast
  have "requireUser ctx = Inr u
       \<and> (\<exists>old\<in>set (sessions d).
            s_id old = us_id input \<and> s_userId old = user_id u
          \<and> s_id s' = s_id old \<and> s_userId s' = s_userId old \<and> s_createdAt s' = s_createdAt old
          \<and> s_title s' = (case us_title input of None \<Rightarrow> s_title old | Some x \<Rightarrow> x)
          \<and> s_jobTitle s' = (case us_jobTitle input of None \<Rightarrow> s_jobTitle old | Some x \<Rightarrow> Some x)
          \<and> s_companyName s' = (case us_companyName input of None \<Rightarrow> s_companyName old | Some x \<Rightarrow> Some x)
          \<and> s_mode s' = (case us_mode input of None \<Rightarrow> s_mode old | Some x \<Rightarrow> Some x)
          \<and> s_scheduledAt s' = (case us_scheduledAt input of None \<Rightarrow> s_scheduledAt old | Some x \<Rightarrow> Some x)
          \<and> s_durationMinutes s' =
              (case us_durationMinutes input of None \<Rightarrow> s_durationMinutes old | Some x \<Rightarrow> Some x)
          \<and> s_updatedAt s' =
              (if us_title input = None \<and> us_jobTitle input = None \<and> us_companyName input = None \<and>
                  us_mode input = None \<and> us_scheduledAt input = None \<and> us_durationMinutes input = None
               then s_updatedAt old else newDate e 0))
       \<and> (map s_id (sessions d') = map s_id (sessions d)
       \<and> map s_userId (sessions d') = map s_userId (sessions d)
       \<and> map s_createdAt (sessions d') = map s_createdAt (sessions d)
       \<and> filter (\<lambda>s. s_id s \<noteq> us_id input) (sessions d') = filter (\<lambda>s. s_id s \<noteq> us_id input) (sessions d)
       \<and> questions d' = questions d \<and> responses d' = responses d
       \<and> s' \<in> set (sessions d'))
       \<and> sessions d' =
             map (\<lambda>s. if s_id s = us_id input \<and> s_userId s = user_id u
                      then s\<lparr>s_title := (case us_title input of None \<Rightarrow> s_title s | Some x \<Rightarrow> x),
                       s_jobTitle := (case us_jobTitle input of None \<Rightarrow> s_jobTitle s | Some x \<Rightarrow> Some x),
                       s_companyName :=
                         (case us_companyName input of None \<Rightarrow> s_companyName s | Some x \<Rightarrow> Some x),
                       s_mode := (case us_mode input of None \<Rightarrow> s_mode s | Some x \<Rightarrow> Some x),
                       s_scheduledAt :=
                         (case us_scheduledAt input of None \<Rightarrow> s_scheduledAt s | Some x \<Rightarrow> Some x),
                       s_durationMinutes :=
                         (case us_durationMinutes input of None \<Rightarrow> s_durationMinutes s
                          | Some x \<Rightarrow> Some x),
                       s_updatedAt :=
                         (if us_title input = None \<and> us_jobTitle input = None \<and>
                             us_companyName input = None \<and> us_mode input = None \<and>
                             us_scheduledAt input = None \<and> us_durationMinutes input = None
                          then s_updatedAt s else newDate e 0)\<rparr>
                      else s)
                 (sessions d)"
  proof (cases "updateData (rest input) = []")
    case True
    with assms ru fo have s': "s' = old" and d': "d' = logged (Select InterviewSessions) d"
      by (simp_all add: updateSession_def selectSessions_def first_take1)
    from True have none: "us_title input = None" "us_jobTitle input = None"
        "us_companyName input = None" "us_mode input = None" "us_scheduledAt input = None"
        "us_durationMinutes input = None"
      by (simp_all add: updateData_empty)
    have row: "(\<exists>old\<in>set (sessions d).
            s_id old = us_id input \<and> s_userId old = user_id u
          \<and> s_id s' = s_id old \<and> s_userId s' = s_userId old \<and> s_createdAt s' = s_createdAt old
          \<and> s_title s' = (case us_title input of None \<Rightarrow> s_title old | Some x \<Rightarrow> x)
          \<and> s_jobTitle s' = (case us_jobTitle input of None \<Rightarrow> s_jobTitle old | Some x \<Rightarrow> Some x)
          \<and> s_companyName s' = (case us_companyName input of None \<Rightarrow> s_companyName old | Some x \<Rightarrow> Some x)
          \<and> s_mode s' = (case us_mode input of None \<Rightarrow> s_mode old | Some x \<Rightarrow> Some x)
          \<and> s_scheduledAt s' = (case us_scheduledAt input of None \<Rightarrow> s_scheduledAt old | Some x \<Rightarrow> Some x)
          \<and> s_durationMinutes s' =
              (case us_durationMinutes input of None \<Rightarrow> s_durationMinutes old | Some x \<Rightarrow> Some x)
          \<and> s_updatedAt s' =
              (if us_title input = None \<and> us_jobTitle input = None \<and> us_companyName input = None \<and>
                  us_mode input = None \<and> us_scheduledAt input = None \<and> us_durationMinutes input = None
               then s_updatedAt old else newDate e 0))"
      using old none by (intro bexI [where x = old]) (simp_all add: s')
    have tab: "map s_id (sessions d') = map s_id (sessions d)
       \<and> map s_userId (sessions d') = map s_userId (sessions d)
       \<and> map s_createdAt (sessions d') = map s_createdAt (sessions d)
       \<and> filter (\<lambda>s. s_id s \<noteq> us_id input) (sessions d') = filter (\<lambda>s. s_id s \<noteq> us_id input) (sessions d)
       \<and> questions d' = questions d \<and> responses d' = responses d
       \<and> s' \<in> set (sessions d')"
      using old by (simp add: s' d' logged_def)
    have "map (\<lambda>s. if s_id s = us_id input \<and> s_userId s = user_id u
                      then s\<lparr>s_title := (case us_title input of None \<Rightarrow> s_title s | Some x \<Rightarrow> x),
                       s_jobTitle := (case us_jobTitle input of None \<Rightarrow> s_jobTitle s | Some x \<Rightarrow> Some x),
                       s_companyName :=
                         (case us_companyName input of None \<Rightarrow> s_companyName s | Some x \<Rightarrow> Some x),
                       s_mode := (case us_mode input of None \<Rightarrow> s_mode s | Some x \<Rightarrow> Some x),
                       s_scheduledAt :=
                         (case us_scheduledAt input of None \<Rightarrow> s_scheduledAt s | Some x \<Rightarrow> Some x),
                       s_durationMinutes :=
                         (case us_durationMinutes input of None \<Rightarrow> s_durationMinutes s
                          | Some x \<Rightarrow> Some x),
                       s_updatedAt :=
                         (if us_title input = None \<and> us_jobTitle input = None \<and>
                             us_companyName input = None \<and> us_mode input = None \<and>
                             us_scheduledAt input = None \<and> us_durationMinutes input = None
                          then s_updatedAt s else newDate e 0)\<rparr>
                      else s)
                 (sessions d) = sessions d"
      by (rule map_idI) (simp add: none)
    then have whole: "sessions d' =
             map (\<lambda>s. if s_id s = us_id input \<and> s_userId s = user_id u
                      then s\<lparr>s_title := (case us_title input of None \<Rightarrow> s_title s | Some x \<Rightarrow> x),
                       s_jobTitle := (case us_jobTitle input of None \<Rightarrow> s_jobTitle s | Some x \<Rightarrow> Some x),
                       s_companyName :=
                         (case us_companyName input of None \<Rightarrow> s_companyName s | Some x \<Rightarrow> Some x),
                       s_mode := (case us_mode input of None \<Rightarrow> s_mode s | Some x \<Rightarrow> Some x),
                       s_scheduledAt :=
                         (case us_scheduledAt input of None \<Rightarrow> s_scheduledAt s | Some x \<Rightarrow> Some x),
                       s_durationMinutes :=
                         (case us_durationMinutes input of None \<Rightarrow> s_durationMinutes s
                          | Some x \<Rightarrow> Some x),
                       s_updatedAt :=
                         (if us_title input = None \<and> us_jobTitle input = None \<and>
                             us_companyName input = None \<and> us_mode input = None \<and>
                             us_scheduledAt input = None \<and> us_durationMinutes input = None
                          then s_updatedAt s else newDate e 0)\<rparr>
                      else s)
                 (sessions d)"
      by (simp add: d' logged_def)
    show ?thesis
      by (rule conjI [OF ru conjI [OF row conjI [OF tab whole]]])
  next
    case False
    with assms ru fo sel have s': "s' = ?f old"
      and d': "d' = logged (Update InterviewSessions)
                 ((logged (Select InterviewSessions) d)
                    \<lparr>sessions := map (\<lambda>s. if ?P s then ?f s else s) (sessions d)\<rparr>)"
      by (simp_all add: updateSession_def selectSessions_def updateSessions_def first_take1 first_Cons logged_def)
    from False have ne: "\<not> (us_title input = None \<and> us_jobTitle input = None \<and> us_companyName input = None \<and>
        us_mode input = None \<and> us_scheduledAt input = None \<and> us_durationMinutes input = None)"
      by (simp add: updateData_empty)
    then have nf: "(us_title input = None \<and> us_jobTitle input = None \<and>
          us_companyName input = None \<and> us_mode input = None \<and>
          us_scheduledAt input = None \<and> us_durationMinutes input = None) = False"
      by blast
    have row: "(\<exists>old\<in>set (sessions d).
            s_id old = us_id input \<and> s_userId old = user_id u
          \<and> s_id s' = s_id old \<and> s_userId s' = s_userId old \<and> s_createdAt s' = s_createdAt old
          \<and> s_title s' = (case us_title input of None \<Rightarrow> s_title old | Some x \<Rightarrow> x)
          \<and> s_jobTitle s' = (case us_jobTitle input of None \<Rightarrow> s_jobTitle old | Some x \<Rightarrow> Some x)
          \<and> s_companyName s' = (case us_companyName input of None \<Rightarrow> s_companyName old | Some x \<Rightarrow> Some x)
          \<and> s_mode s' = (case us_mode input of None \<Rightarrow> s_mode old | Some x \<Rightarrow> Some x)
          \<and> s_scheduledAt s' = (case us_scheduledAt input of None \<Rightarrow> s_scheduledAt old | Some x \<Rightarrow> Some x)
          \<and> s_durationMinutes s' =
              (case us_durationMinutes input of None \<Rightarrow> s_durationMinutes old | Some x \<Rightarrow> Some x)
          \<and> s_updatedAt s' =
              (if us_title input = None \<and> us_jobTitle input = None \<and> us_companyName input = None \<and>
                  us_mode input = None \<and> us_scheduledAt input = None \<and> us_durationMinutes input = None
               then s_updatedAt old else newDate e 0))"
      unfolding nf using old by (intro bexI [where x = old]) (simp_all add: s' setSession_patch)
    have "s' \<in> (\<lambda>s. if ?P s then ?f s else s) ` set (sessions d)"
      unfolding s' using old by (intro image_eqI [where x = old]) simp_all
    then have mem: "s' \<in> set (sessions d')"
      unfolding d' by (simp add: logged_def)
    have "filter (\<lambda>s. s_id s \<noteq> us_id input) (map (\<lambda>s. if ?P s then ?f s else s) (sessions d))
            = filter (\<lambda>s. s_id s \<noteq> us_id input) (sessions d)"
      by (rule filter_map_update) (simp add: setSession_patch)
    then have others: "filter (\<lambda>s. s_id s \<noteq> us_id input) (sessions d')
            = filter (\<lambda>s. s_id s \<noteq> us_id input) (sessions d)"
      unfolding d' by (simp add: logged_def)
    have cols: "map s_id (sessions d') = map s_id (sessions d)"
      "map s_userId (sessions d') = map s_userId (sessions d)"
      "map s_createdAt (sessions d') = map s_createdAt (sessions d)"
      "questions d' = questions d" "responses d' = responses d"
      unfolding d' setSession_patch
      by (simp_all add: logged_def)
    from cols others mem have tab: "map s_id (sessions d') = map s_id (sessions d)
       \<and> map s_userId (sessions d') = map s_userId (sessions d)
       \<and> map s_createdAt (sessions d') = map s_createdAt (sessions d)
       \<and> filter (\<lambda>s. s_id s \<noteq> us_id input) (sessions d') = filter (\<lambda>s. s_id s \<noteq> us_id input) (sessions d)
       \<and> questions d' = questions d \<and> responses d' = responses d
       \<and> s' \<in> set (sessions d')"
      by simp
    have whole: "sessions d' =
             map (\<lambda>s. if s_id s = us_id input \<and> s_userId s = user_id u
                      then s\<lparr>s_title := (case us_title input of None \<Rightarrow> s_title s | Some x \<Rightarrow> x),
                       s_jobTitle := (case us_jobTitle input of None \<Rightarrow> s_jobTitle s | Some x \<Rightarrow> Some x),
                       s_companyName :=
                         (case us_companyName input of None \<Rightarrow> s_companyName s | Some x \<Rightarrow> Some x),
                       s_mode := (case us_mode input of None \<Rightarrow> s_mode s | Some x \<Rightarrow> Some x),
                       s_scheduledAt :=
                         (case us_scheduledAt input of None \<Rightarrow> s_scheduledAt s | Some x \<Rightarrow> Some x),
                       s_durationMinutes :=
                         (case us_durationMinutes input of None \<Rightarrow> s_durationMinutes s
                          | Some x \<Rightarrow> Some x),
                       s_updatedAt :=
                         (if us_title input = None \<and> us_jobTitle input = None \<and>
                             us_companyName input = None \<and> us_mode input = None \<and>
                             us_scheduledAt input = None \<and> us_durationMinutes input = None
                          then s_updatedAt s else newDate e 0)\<rparr>
                      else s)
                 (sessions d)"
      unfolding d' nf by (simp add: logged_def setSession_patch)
    show ?thesis
      by (rule conjI [OF ru conjI [OF row conjI [OF tab whole]]])
  qed
  then show ?thesis by blast
qed

text \<open>Retitling session S: the title and \<open>updatedAt\<close> change, nothing else does.\<close>

theorem updateSession_sparse_patch_witness:
  "updateSession ticking signedIn
       \<lparr>us_id = ''S'', us_title = Some ''Updated'', us_jobTitle = None, us_companyName = None,
        us_mode = None, us_scheduledAt = None, us_durationMinutes = None\<rparr> store0
     = (Inr (Some (sessionS\<lparr>s_title := ''Updated'', s_updatedAt := 2000\<rparr>)),
        store0\<lparr>sessions := [sessionS\<lparr>s_title := ''Updated'', s_updatedAt := 2000\<rparr>, sessionT, sessionS2],
               calls := [Select InterviewSessions, Update InterviewSessions]\<rparr>)
   \<and> s_jobTitle (sessionS\<lparr>s_title := ''Updated'', s_updatedAt := 2000\<rparr>) = s_jobTitle sessionS
   \<and> s_durationMinutes (sessionS\<lparr>s_title := ''Updated'', s_updatedAt := 2000\<rparr>) = Some 45
   \<and> s_createdAt (sessionS\<lparr>s_title := ''Updated'', s_updatedAt := 2000\<rparr>) = 1000"
proof -
  have h: "updateSession ticking signedIn
       \<lparr>us_id = ''S'', us_title = Some ''Updated'', us_jobTitle = None, us_companyName = None,
        us_mode = None, us_scheduledAt = None, us_durationMinutes = None\<rparr> store0
     = (Inr (Some (sessionS\<lparr>s_title := ''Updated'', s_updatedAt := 2000\<rparr>)),
        store0\<lparr>sessions := [sessionS\<lparr>s_title := ''Updated'', s_updatedAt := 2000\<rparr>, sessionT, sessionS2],
               calls := [Select InterviewSessions, Update InterviewSessions]\<rparr>)"
    by (simp add: updateSession_def requireUser_def store_defs rest_def setSession_def example_defs)
  from updateSession_sparse_patch [OF h] h show ?thesis
    by (simp add: example_defs)
qed

section \<open>Deleting sessions and questions\<close>

text \<open>
  C6 (amended). For a signed-in caller. \<open>deleteSession\<close> on an id that no session
  of the caller has (no such row, or a row of another user) fails with NotFound and
  removes nothing. On a session of the caller that no question and no response refers
  to, it removes that row and returns it; on one that is still referred to, the store
  rejects the delete and the row stays. \<open>deleteQuestion\<close> fails with NotFound,
  removing nothing, when the session is not the caller's or when no question with that
  id belongs to it. On a question of the session that no response refers to, it removes
  the question and returns it; on one that a response still refers to, the store
  rejects the delete and the row stays. Where a row is removed, keys are unique in
  each table, so that the row is the only match.
\<close>

theorem delete_not_found_or_deleted:
  assumes "requireUser ctx = Inr u"
  shows "((\<forall>s\<in>set (sessions d). \<not> (s_id s = i \<and> s_userId s = user_id u)) \<longrightarrow>
            deleteSession ctx i d =
              (Inl (ActionError NOT_FOUND ''Session not found.''),
               d\<lparr>calls := calls d @ [Delete InterviewSessions]\<rparr>))
       \<and> (primaryKeys d \<and> row \<in> set (sessions d) \<and> s_id row = i \<and> s_userId row = user_id u
           \<and> \<not> ((\<exists>q\<in>set (questions d). q_sessionId q = i) \<or> (\<exists>r\<in>set (responses d). r_sessionId r = i)) \<longrightarrow>
            deleteSession ctx i d =
              (Inr row, d\<lparr>sessions := removeAll row (sessions d),
                          calls := calls d @ [Delete InterviewSessions]\<rparr>))
       \<and> (row \<in> set (sessions d) \<and> s_id row = i \<and> s_userId row = user_id u
           \<and> ((\<exists>q\<in>set (questions d). q_sessionId q = i) \<or> (\<exists>r\<in>set (responses d). r_sessionId r = i)) \<longrightarrow>
            deleteSession ctx i d =
              (Inl StoreError, d\<lparr>calls := calls d @ [Delete InterviewSessions]\<rparr>))
       \<and> ((\<forall>s\<in>set (sessions d). \<not> (s_id s = dq_sessionId input \<and> s_userId s = user_id u)) \<longrightarrow>
            deleteQuestion ctx input d =
              (Inl (ActionError NOT_FOUND ''Session not found.''),
               d\<lparr>calls := calls d @ [Select InterviewSessions]\<rparr>))
       \<and> ((\<exists>s\<in>set (sessions d). s_id s = dq_sessionId input \<and> s_userId s = user_id u)
           \<and> (\<forall>q\<in>set (questions d). \<not> (q_id q = Some (dq_id input) \<and> q_sessionId q = dq_sessionId input)) \<longrightarrow>
            deleteQuestion ctx input d =
              (Inl (ActionError NOT_FOUND ''Question not found.''),
               d\<lparr>calls := calls d @ [Select InterviewSessions, Delete InterviewQuestions]\<rparr>))
       \<and> (primaryKeys d
           \<and> (\<exists>s\<in>set (sessions d). s_id s = dq_sessionId input \<and> s_userId s = user_id u)
           \<and> qrow \<in> set (questions d) \<and> q_id qrow = Some (dq_id input)
           \<and> q_sessionId qrow = dq_sessionId input
           \<and> \<not> (\<exists>r\<in>set (responses d). r_questionId r = dq_id input) \<longrightarrow>
            deleteQuestion ctx input d =
              (Inr qrow, d\<lparr>questions := removeAll qrow (questions d),
                           calls := calls d @ [Select InterviewSessions, Delete InterviewQuestions]\<rparr>))
       \<and> ((\<exists>s\<in>set (sessions d). s_id s = dq_sessionId input \<and> s_userId s = user_id u)
           \<and> qrow \<in> set (questions d) \<and> q_id qrow = Some (dq_id input)
           \<and> q_sessionId qrow = dq_sessionId input
           \<and> (\<exists>r\<in>set (responses d). r_questionId r = dq_id input) \<longrightarrow>
            deleteQuestion ctx input d =
              (Inl StoreError,
               d\<lparr>calls := calls d @ [Select InterviewSessions, Delete InterviewQuestions]\<rparr>))"
proof -
  let ?S = "\<lambda>s. s_id s = i \<and> s_userId s = user_id u"
  let ?O = "\<lambda>s. s_id s = dq_sessionId input \<and> s_userId s = user_id u"
  let ?Q = "\<lambda>q. q_id q = Some (dq_id input) \<and> q_sessionId q = dq_sessionId input"
  let ?d1 = "logged (Select InterviewSessions) d"
  have s_none: "deleteSession ctx i d =
              (Inl (ActionError NOT_FOUND ''Session not found.''),
               d\<lparr>calls := calls d @ [Delete InterviewSessions]\<rparr>)"
    if "\<forall>s\<in>set (sessions d). \<not> ?S s"
  proof -
    from that have "filter ?S (sessions d) = []"
      by (simp add: filter_empty_conv)
    from deleteSessions_none [OF this] show ?thesis
      using assms by (simp add: deleteSession_def logged_def first_Nil)
  qed
  have s_rows: "filter ?S (sessions d) = [row]"
      "filter (\<lambda>s. \<not> ?S s) (sessions d) = removeAll row (sessions d)"
    if "primaryKeys d" "row \<in> set (sessions d)" "s_id row = i" "s_userId row = user_id u"
  proof -
    from that(1) have dist: "distinct (map s_id (sessions d))" by (simp add: primaryKeys_def)
    from that(2-4) show "filter ?S (sessions d) = [row]"
      and "filter (\<lambda>s. \<not> ?S s) (sessions d) = removeAll row (sessions d)"
      using key_rows [OF dist, of row "\<lambda>s. s_userId s = user_id u"] by simp_all
  qed
  have s_gone: "deleteSession ctx i d =
              (Inr row, d\<lparr>sessions := removeAll row (sessions d),
                          calls := calls d @ [Delete InterviewSessions]\<rparr>)"
    if "primaryKeys d" "row \<in> set (sessions d)" "s_id row = i" "s_userId row = user_id u"
      "\<not> ((\<exists>q\<in>set (questions d). q_sessionId q = i) \<or> (\<exists>r\<in>set (responses d). r_sessionId r = i))"
  proof -
    note rows = s_rows [OF that(1-4)]
    from deleteSessions_one [OF rows(1)] that(3,5) rows(2)
    have "deleteSessions ?S d =
            (Inr [row], logged (Delete InterviewSessions) (d\<lparr>sessions := removeAll row (sessions d)\<rparr>))"
      by simp
    then show ?thesis
      using assms by (simp add: deleteSession_def logged_def first_Cons)
  qed
  have s_kept: "deleteSession ctx i d =
              (Inl StoreError, d\<lparr>calls := calls d @ [Delete InterviewSessions]\<rparr>)"
    if "row \<in> set (sessions d)" "s_id row = i" "s_userId row = user_id u"
      "(\<exists>q\<in>set (questions d). q_sessionId q = i) \<or> (\<exists>r\<in>set (responses d). r_sessionId r = i)"
  proof -
    from that(1-3) have "row \<in> set (filter ?S (sessions d))" by simp
    with that(2,4) have "\<exists>s\<in>set (filter ?S (sessions d)).
                (\<exists>q\<in>set (questions d). q_sessionId q = s_id s)
                \<or> (\<exists>r\<in>set (responses d). r_sessionId r = s_id s)"
      by blast
    from deleteSessions_referenced [OF this] show ?thesis
      using assms by (simp add: deleteSession_def logged_def)
  qed
  have q_nosession: "deleteQuestion ctx input d =
              (Inl (ActionError NOT_FOUND ''Session not found.''),
               d\<lparr>calls := calls d @ [Select InterviewSessions]\<rparr>)"
    if "\<forall>s\<in>set (sessions d). \<not> ?O s"
  proof -
    from that have "filter ?O (sessions d) = []"
      by (simp add: filter_empty_conv)
    then show ?thesis
      using assms by (simp add: deleteQuestion_def selectSessions_def logged_def first_Nil)
  qed
  have owned: "\<exists>s. first (filter ?O (sessions d)) = Some s" if "\<exists>s\<in>set (sessions d). ?O s"
    using first_filter_Some [OF that] by blast
  have q_none: "deleteQuestion ctx input d =
              (Inl (ActionError NOT_FOUND ''Question not found.''),
               d\<lparr>calls := calls d @ [Select InterviewSessions, Delete InterviewQuestions]\<rparr>)"
    if "\<exists>s\<in>set (sessions d). ?O s" "\<forall>q\<in>set (questions d). \<not> ?Q q"
  proof -
    from owned [OF that(1)] obtain s where fs: "first (filter ?O (sessions d)) = Some s" ..
    from that(2) have "filter ?Q (questions ?d1) = []"
      by (simp add: filter_empty_conv logged_def)
    from deleteQuestions_none [OF this]
    have "deleteQuestions ?Q ?d1 = (Inr [], logged (Delete InterviewQuestions) ?d1)" .
    then show ?thesis
      using assms fs
      by (simp add: deleteQuestion_def selectSessions_def logged_def first_take1 first_Nil)
  qed
  have q_rows: "filter ?Q (questions ?d1) = [qrow]"
      "filter (\<lambda>q. \<not> ?Q q) (questions ?d1) = removeAll qrow (questions d)"
    if "primaryKeys d" "qrow \<in> set (questions d)" "q_id qrow = Some (dq_id input)"
      "q_sessionId qrow = dq_sessionId input"
  proof -
    from that(1) have dist: "distinct (keys (map q_id (questions d)))" by (simp add: primaryKeys_def)
    from that(2-4) show "filter ?Q (questions ?d1) = [qrow]"
      and "filter (\<lambda>q. \<not> ?Q q) (questions ?d1) = removeAll qrow (questions d)"
      using optkey_rows [OF dist, of qrow "dq_id input" "\<lambda>q. q_sessionId q = dq_sessionId input"]
      by (simp_all add: logged_def)
  qed
  have q_gone: "deleteQuestion ctx input d =
              (Inr qrow, d\<lparr>questions := removeAll qrow (questions d),
                           calls := calls d @ [Select InterviewSessions, Delete InterviewQuestions]\<rparr>)"
    if "primaryKeys d" "\<exists>s\<in>set (sessions d). ?O s" "qrow \<in> set (questions d)"
      "q_id qrow = Some (dq_id input)" "q_sessionId qrow = dq_sessionId input"
      "\<not> (\<exists>r\<in>set (responses d). r_questionId r = dq_id input)"
  proof -
    from owned [OF that(2)] obtain s where fs: "first (filter ?O (sessions d)) = Some s" ..
    note rows = q_rows [OF that(1,3,4,5)]
    from that(6) have "\<not> (\<exists>r\<in>set (responses ?d1). Some (r_questionId r) = q_id qrow)"
      by (simp add: that(4) logged_def)
    with deleteQuestions_one [OF rows(1)] rows(2)
    have "deleteQuestions ?Q ?d1 =
            (Inr [qrow], logged (Delete InterviewQuestions) (?d1\<lparr>questions := removeAll qrow (questions d)\<rparr>))"
      by simp
    then show ?thesis
      using assms fs
      by (simp add: deleteQuestion_def selectSessions_def logged_def first_take1 first_Cons)
  qed
  have q_kept: "deleteQuestion ctx input d =
              (Inl StoreError,
               d\<lparr>calls := calls d @ [Select InterviewSessions, Delete InterviewQuestions]\<rparr>)"
    if "\<exists>s\<in>set (sessions d). ?O s" "qrow \<in> set (questions d)"
      "q_id qrow = Some (dq_id input)" "q_sessionId qrow = dq_sessionId input"
      "\<exists>r\<in>set (responses d). r_questionId r = dq_id input"
  proof -
    from owned [OF that(1)] obtain s where fs: "first (filter ?O (sessions d)) = Some s" ..
    from that(2-4) have "qrow \<in> set (filter ?Q (questions ?d1))"
      by (simp add: logged_def)
    moreover from that(3,5) have "\<exists>r\<in>set (responses ?d1). Some (r_questionId r) = q_id qrow"
      by (simp add: logged_def)
    ultimately have "\<exists>q\<in>set (filter ?Q (questions ?d1)).
                 \<exists>r\<in>set (responses ?d1). Some (r_questionId r) = q_id q"
      by blast
    from deleteQuestions_referenced [OF this] show ?thesis
      using assms fs
      by (simp add: deleteQuestion_def selectSessions_def logged_def first_take1)
  qed
  show ?thesis
    using s_none s_gone s_kept q_nosession q_none q_gone q_kept by blast
qed

text \<open>
  In the example states: a session of user B; session S2, which nothing refers to;
  session S, which has a question; question Q reached through the wrong session; a
  question of another session; question U, which no response answers; and question Q,
  which response R answers.
\<close>

theorem delete_not_found_or_deleted_witness:
  "requireUser signedIn = Inr alice \<and> primaryKeys store0 \<and> primaryKeys store1
   \<and> deleteSession signedIn ''T'' store0
       = (Inl (ActionError NOT_FOUND ''Session not found.''), store0\<lparr>calls := [Delete InterviewSessions]\<rparr>)
   \<and> deleteSession signedIn ''S2'' store0
       = (Inr sessionS2, store0\<lparr>sessions := [sessionS, sessionT], calls := [Delete InterviewSessions]\<rparr>)
   \<and> deleteSession signedIn ''S'' store0
       = (Inl StoreError, store0\<lparr>calls := [Delete InterviewSessions]\<rparr>)
   \<and> deleteQuestion signedIn \<lparr>dq_id = ''Q'', dq_sessionId = ''T''\<rparr> store0
       = (Inl (ActionError NOT_FOUND ''Session not found.''), store0\<lparr>calls := [Select InterviewSessions]\<rparr>)
   \<and> deleteQuestion signedIn \<lparr>dq_id = ''P'', dq_sessionId = ''S''\<rparr> store0
       = (Inl (ActionError NOT_FOUND ''Question not found.''),
          store0\<lparr>calls := [Select InterviewSessions, Delete InterviewQuestions]\<rparr>)
   \<and> deleteQuestion signedIn \<lparr>dq_id = ''U'', dq_sessionId = ''S2''\<rparr> store1
       = (Inr questionU,
          store1\<lparr>questions := [questionQ, questionP],
                 calls := [Select InterviewSessions, Delete InterviewQuestions]\<rparr>)
   \<and> deleteQuestion signedIn \<lparr>dq_id = ''Q'', dq_sessionId = ''S''\<rparr> store0
       = (Inl StoreError, store0\<lparr>calls := [Select InterviewSessions, Delete InterviewQuestions]\<rparr>)"
proof -
  have pk: "primaryKeys store0" "primaryKeys store1"
    by (simp_all add: primaryKeys_def example_defs)
  show ?thesis
    using pk requireUser_signedIn
      delete_not_found_or_deleted [OF requireUser_signedIn, of store0 "''T''" sessionT
        "\<lparr>dq_id = ''Q'', dq_sessionId = ''T''\<rparr>" questionQ]
      delete_not_found_or_deleted [OF requireUser_signedIn, of store0 "''S2''" sessionS2
        "\<lparr>dq_id = ''P'', dq_sessionId = ''S''\<rparr>" questionP]
      delete_not_found_or_deleted [OF requireUser_signedIn, of store0 "''S''" sessionS
        "\<lparr>dq_id = ''Q'', dq_sessionId = ''S''\<rparr>" questionQ]
      delete_not_found_or_deleted [OF requireUser_signedIn, of store1 "''S''" sessionS
        "\<lparr>dq_id = ''U'', dq_sessionId = ''S2''\<rparr>" questionU]
    by (simp add: example_defs)
qed

text \<open>
  As stated, with every matching row deleted and returned, the claim fails: session S
  still has a question and a response, and question Q a response, so the store rejects
  both deletes and the rows stay.
\<close>

theorem delete_counterexample:
  "sessionS \<in> set (sessions store0) \<and> s_userId sessionS = user_id alice
   \<and> deleteSession signedIn ''S'' store0
       = (Inl StoreError, store0\<lparr>calls := [Delete InterviewSessions]\<rparr>)
   \<and> questionQ \<in> set (questions store0) \<and> q_sessionId questionQ = ''S''
   \<and> deleteQuestion signedIn \<lparr>dq_id = ''Q'', dq_sessionId = ''S''\<rparr> store0
       = (Inl StoreError, store0\<lparr>calls := [Select InterviewSessions, Delete InterviewQuestions]\<rparr>)"
proof -
  have "deleteSessions (\<lambda>s. s_id s = ''S'' \<and> s_userId s = ''A'') store0
          = (Inl StoreError, store0\<lparr>calls := [Delete InterviewSessions]\<rparr>)"
    by (simp add: deleteSessions_def logged_def example_defs)
  moreover have "deleteQuestions (\<lambda>q. q_id q = Some ''Q'' \<and> q_sessionId q = ''S'')
            (store0\<lparr>calls := [Select InterviewSessions]\<rparr>)
          = (Inl StoreError, store0\<lparr>calls := [Select InterviewSessions, Delete InterviewQuestions]\<rparr>)"
    by (simp add: deleteQuestions_def logged_def example_defs)
  moreover have "sessionS \<in> set (sessions store0)" "s_userId sessionS = user_id alice"
    "questionQ \<in> set (questions store0)" "q_sessionId questionQ = ''S''"
    "filter (\<lambda>s. s_id s = ''S'' \<and> s_userId s = ''A'') (sessions store0) = [sessionS]"
    "calls store0 = []"
    by (simp_all add: example_defs)
  ultimately show ?thesis
    by (simp add: deleteSession_def deleteQuestion_def requireUser_def signedIn_def alice_def
        selectSessions_def logged_def first_def)
qed

section \<open>Creating a session\<close>

text \<open>
  C7 (amended). For a signed-in caller, let the id of the new row be the input's id when
  given and the generated one otherwise. When that id is not yet the id of a session,
  \<open>createSession\<close> appends exactly one row with that id, the caller's id as
  \<open>userId\<close> and the input's fields, and returns it. When it is already the id of a
  session, the insert fails on the primary key and no row is inserted. In a created row
  \<open>createdAt\<close> is the first and \<open>updatedAt\<close> the second reading of the clock in the
  call, so the two are equal exactly when those two readings are.
\<close>

theorem createSession_inserts_row:
  assumes "requireUser ctx = Inr u"
  shows "((case cs_id input of Some i \<Rightarrow> i | None \<Rightarrow> randomUUID e) \<notin> set (map s_id (sessions d)) \<longrightarrow>
            createSession e ctx input d =
              (let row = \<lparr>s_id = (case cs_id input of Some i \<Rightarrow> i | None \<Rightarrow> randomUUID e),
                          s_userId = user_id u, s_title = cs_title input, s_jobTitle = cs_jobTitle input,
                          s_companyName = cs_companyName input, s_mode = cs_mode input,
                          s_scheduledAt = cs_scheduledAt input,
                          s_durationMinutes = cs_durationMinutes input,
                          s_createdAt = newDate e 0, s_updatedAt = newDate e 1\<rparr>
               in (Inr (Some row),
                   d\<lparr>sessions := sessions d @ [row], calls := calls d @ [Insert InterviewSessions]\<rparr>)))
       \<and> ((case cs_id input of Some i \<Rightarrow> i | None \<Rightarrow> randomUUID e) \<in> set (map s_id (sessions d)) \<longrightarrow>
            createSession e ctx input d =
              (Inl StoreError, d\<lparr>calls := calls d @ [Insert InterviewSessions]\<rparr>))
       \<and> (\<forall>row d'. createSession e ctx input d = (Inr (Some row), d') \<longrightarrow>
            s_createdAt row = newDate e 0 \<and> s_updatedAt row = newDate e 1
            \<and> (s_createdAt row = s_updatedAt row \<longleftrightarrow> newDate e 0 = newDate e 1))"
  using assms
  by (auto simp: createSession_def insertSessions_def logged_def first_def Let_def)

theorem createSession_inserts_row_witness:
  "requireUser signedIn = Inr alice
   \<and> ''u-1'' \<notin> set (map s_id (sessions store0))
   \<and> ''S'' \<in> set (map s_id (sessions store0))
   \<and> createSession strict signedIn
        \<lparr>cs_id = None, cs_title = ''Backend Interview'', cs_jobTitle = None, cs_companyName = None,
         cs_mode = None, cs_scheduledAt = None, cs_durationMinutes = None\<rparr> store0
       = (Inr (Some \<lparr>s_id = ''u-1'', s_userId = ''A'', s_title = ''Backend Interview'',
                      s_jobTitle = None, s_companyName = None, s_mode = None, s_scheduledAt = None,
                      s_durationMinutes = None, s_createdAt = 2000, s_updatedAt = 2000\<rparr>),
          store0\<lparr>sessions := [sessionS, sessionT, sessionS2,
                     \<lparr>s_id = ''u-1'', s_userId = ''A'', s_title = ''Backend Interview'',
                      s_jobTitle = None, s_companyName = None, s_mode = None, s_scheduledAt = None,
                      s_durationMinutes = None, s_createdAt = 2000, s_updatedAt = 2000\<rparr>],
                 calls := [Insert InterviewSessions]\<rparr>)
   \<and> createSession strict signedIn
        \<lparr>cs_id = Some ''S'', cs_title = ''Backend Interview'', cs_jobTitle = None, cs_companyName = None,
         cs_mode = None, cs_scheduledAt = None, cs_durationMinutes = None\<rparr> store0
       = (Inl StoreError, store0\<lparr>calls := [Insert InterviewSessions]\<rparr>)"
  using requireUser_signedIn
    createSession_inserts_row [OF requireUser_signedIn, where e = strict and d = store0 and input =
      "\<lparr>cs_id = None, cs_title = ''Backend Interview'', cs_jobTitle = None, cs_companyName = None,
         cs_mode = None, cs_scheduledAt = None, cs_durationMinutes = None\<rparr>"]
    createSession_inserts_row [OF requireUser_signedIn, where e = strict and d = store0 and input =
      "\<lparr>cs_id = Some ''S'', cs_title = ''Backend Interview'', cs_jobTitle = None, cs_companyName = None,
         cs_mode = None, cs_scheduledAt = None, cs_durationMinutes = None\<rparr>"]
  by (simp add: example_defs Let_def)

text \<open>
  As stated the claim fails twice: an id that is already taken makes the insert fail on
  the primary key, and nothing is inserted; and with a clock that advances between the
  two readings the created row has \<open>createdAt\<close> 2000 and \<open>updatedAt\<close> 2001.
\<close>

theorem createSession_counterexample:
  "createSession ticking signedIn
        \<lparr>cs_id = Some ''S'', cs_title = ''Backend Interview'', cs_jobTitle = None, cs_companyName = None,
         cs_mode = None, cs_scheduledAt = None, cs_durationMinutes = None\<rparr> store0
     = (Inl StoreError, store0\<lparr>calls := [Insert InterviewSessions]\<rparr>)
   \<and> fst (createSession ticking signedIn
        \<lparr>cs_id = None, cs_title = ''Backend Interview'', cs_jobTitle = None, cs_companyName = None,
         cs_mode = None, cs_scheduledAt = None, cs_durationMinutes = None\<rparr> store0)
     = Inr (Some \<lparr>s_id = ''u-1'', s_userId = ''A'', s_title = ''Backend Interview'',
                      s_jobTitle = None, s_companyName = None, s_mode = None, s_scheduledAt = None,
                      s_durationMinutes = None, s_createdAt = 2000, s_updatedAt = 2001\<rparr>)"
  by (simp add: createSession_def requireUser_def store_defs example_defs)

section \<open>Saving a question\<close>

text \<open>
  C5. \<open>saveQuestion\<close> without an id, for a session of the caller: the object handed
  to the insert has no \<open>id\<close> entry, so no id is generated. On an engine that stores
  the row, the returned question has no id; on one that rejects a NULL key the call fails
  with the store's error. Either way the caller gets no question with a new id.
\<close>

theorem saveQuestion_insert_without_id:
  "saveQuestion ticking signedIn
       \<lparr>sq_id = None, sq_sessionId = ''S'', sq_orderIndex = 1,
        sq_question = ''Tell me about yourself'', sq_idealAnswer = None\<rparr> store0
     = (Inr (Some \<lparr>q_id = None, q_sessionId = ''S'', q_orderIndex = 1,
                    q_question = ''Tell me about yourself'', q_idealAnswer = None, q_createdAt = 2000\<rparr>),
        store0\<lparr>questions := [questionQ, questionP,
                    \<lparr>q_id = None, q_sessionId = ''S'', q_orderIndex = 1,
                     q_question = ''Tell me about yourself'', q_idealAnswer = None, q_createdAt = 2000\<rparr>],
               calls := [Select InterviewSessions, Insert InterviewQuestions]\<rparr>)
   \<and> saveQuestion strict signedIn
       \<lparr>sq_id = None, sq_sessionId = ''S'', sq_orderIndex = 1,
        sq_question = ''Tell me about yourself'', sq_idealAnswer = None\<rparr> store0
     = (Inl StoreError, store0\<lparr>calls := [Select InterviewSessions, Insert InterviewQuestions]\<rparr>)"
  by (simp add: saveQuestion_def requireUser_def store_defs example_defs)

text \<open>The same for every input that takes the insert path.\<close>

lemma saveQuestion_insert_path:
  assumes "truthy (sq_id input) = None" and "saveQuestion e ctx input d = (Inr (Some q), d')"
  shows "q_id q = None"
  using assms
  by (auto simp: saveQuestion_def selectSessions_def insertQuestions_def logged_def first_Cons Let_def
      split: sum.splits option.splits if_splits)

text \<open>
  C9 (amended). When \<open>saveQuestion\<close> succeeds with a non-empty id (the update path),
  the returned row has that id, the input's \<open>question\<close> and \<open>orderIndex\<close>, a
  \<open>createdAt\<close> refreshed to the clock reading of the call, and a \<open>sessionId\<close>
  equal to the input's, which is also the stored one. \<open>idealAnswer\<close> takes the
  input's value when the input provides one and keeps the stored value otherwise. The
  row is in the table afterwards; no key and no other table changes.
\<close>

theorem saveQuestion_update_path:
  assumes "saveQuestion e ctx input d = (Inr (Some q'), d')"
    and "sq_id input = Some i" and "i \<noteq> []"
  shows "q_id q' = Some i
       \<and> q_sessionId q' = sq_sessionId input
       \<and> q_orderIndex q' = sq_orderIndex input
       \<and> q_question q' = sq_question input
       \<and> q_createdAt q' = newDate e 0
       \<and> (\<exists>old\<in>set (questions d).
             q_id old = Some i \<and> q_sessionId old = sq_sessionId input
           \<and> q_idealAnswer q' = (case sq_idealAnswer input of None \<Rightarrow> q_idealAnswer old | Some a \<Rightarrow> Some a))
       \<and> q' \<in> set (questions d')
       \<and> map q_id (questions d') = map q_id (questions d)
       \<and> sessions d' = sessions d \<and> responses d' = responses d"
proof -
  from assms(1) obtain u where ru: "requireUser ctx = Inr u"
    by (cases "requireUser ctx") (auto simp: saveQuestion_def)
  let ?S = "\<lambda>s. s_id s = sq_sessionId input \<and> s_userId s = user_id u"
  let ?P = "\<lambda>q. q_id q = Some i"
  let ?v = "\<lparr>qv_sessionId = sq_sessionId input, qv_orderIndex = sq_orderIndex input,
             qv_question = sq_question input, qv_idealAnswer = sq_idealAnswer input,
             qv_createdAt = newDate e 0\<rparr>"
  have tr: "truthy (sq_id input) = Some i"
    using assms(2,3) by (simp add: truthy_Some)
  from assms(1) ru obtain session where fs: "first (filter ?S (sessions d)) = Some session"
    by (cases "first (filter ?S (sessions d))")
       (auto simp: saveQuestion_def selectSessions_def first_take1)
  from assms(1) ru fs tr obtain old where fo: "first (filter ?P (questions d)) = Some old"
    by (cases "first (filter ?P (questions d))")
       (auto simp: saveQuestion_def selectSessions_def selectQuestions_def logged_def first_take1 Let_def)
  from first_filter_SomeD [OF fo] obtain more where
    old: "old \<in> set (questions d)" "q_id old = Some i" and sel: "filter ?P (questions d) = old # more"
    by blast
  from assms(1) ru fs tr fo have same: "q_sessionId old = sq_sessionId input"
    by (cases "q_sessionId old = sq_sessionId input")
       (auto simp: saveQuestion_def selectSessions_def selectQuestions_def logged_def first_take1 Let_def)
  from assms(1) ru fs tr fo same sel have q': "q' = setQuestion ?v old"
    and d': "d' = logged (Update InterviewQuestions)
               ((logged (Select InterviewQuestions) (logged (Select InterviewSessions) d))
                  \<lparr>questions := map (\<lambda>q. if ?P q then setQuestion ?v q else q) (questions d)\<rparr>)"
    by (simp_all add: saveQuestion_def selectSessions_def selectQuestions_def updateQuestions_def
        logged_def first_take1 first_Cons Let_def)
  have row: "q_id q' = Some i" "q_sessionId q' = sq_sessionId input"
    "q_orderIndex q' = sq_orderIndex input" "q_question q' = sq_question input"
    "q_createdAt q' = newDate e 0"
    "q_idealAnswer q' = (case sq_idealAnswer input of None \<Rightarrow> q_idealAnswer old | Some a \<Rightarrow> Some a)"
    unfolding q' using old(2) by (simp_all add: setQuestion_def)
  have "q' \<in> (\<lambda>q. if ?P q then setQuestion ?v q else q) ` set (questions d)"
    unfolding q' using old by (intro image_eqI [where x = old]) simp_all
  then have mem: "q' \<in> set (questions d')"
    unfolding d' by (simp add: logged_def)
  have tab: "map q_id (questions d') = map q_id (questions d)"
    "sessions d' = sessions d" "responses d' = responses d"
    unfolding d' by (simp_all add: logged_def setQuestion_def)
  from row old same mem tab show ?thesis by auto
qed

theorem saveQuestion_update_path_witness:
  "saveQuestion ticking signedIn
       \<lparr>sq_id = Some ''Q'', sq_sessionId = ''S'', sq_orderIndex = 2,
        sq_question = ''Tell me more'', sq_idealAnswer = Some ''Be specific''\<rparr> store0
     = (Inr (Some \<lparr>q_id = Some ''Q'', q_sessionId = ''S'', q_orderIndex = 2,
                    q_question = ''Tell me more'', q_idealAnswer = Some ''Be specific'',
                    q_createdAt = 2000\<rparr>),
        store0\<lparr>questions := [\<lparr>q_id = Some ''Q'', q_sessionId = ''S'', q_orderIndex = 2,
                    q_question = ''Tell me more'', q_idealAnswer = Some ''Be specific'',
                    q_createdAt = 2000\<rparr>, questionP],
               calls := [Select InterviewSessions, Select InterviewQuestions, Update InterviewQuestions]\<rparr>)
   \<and> q_createdAt questionQ = 1300"
proof -
  have h: "saveQuestion ticking signedIn
       \<lparr>sq_id = Some ''Q'', sq_sessionId = ''S'', sq_orderIndex = 2,
        sq_question = ''Tell me more'', sq_idealAnswer = Some ''Be specific''\<rparr> store0
     = (Inr (Some \<lparr>q_id = Some ''Q'', q_sessionId = ''S'', q_orderIndex = 2,
                    q_question = ''Tell me more'', q_idealAnswer = Some ''Be specific'',
                    q_createdAt = 2000\<rparr>),
        store0\<lparr>questions := [\<lparr>q_id = Some ''Q'', q_sessionId = ''S'', q_orderIndex = 2,
                    q_question = ''Tell me more'', q_idealAnswer = Some ''Be specific'',
                    q_createdAt = 2000\<rparr>, questionP],
               calls := [Select InterviewSessions, Select InterviewQuestions, Update InterviewQuestions]\<rparr>)"
    by (simp add: saveQuestion_def requireUser_def store_defs setQuestion_def example_defs)
  from saveQuestion_update_path [OF h, of "''Q''"] h show ?thesis
    by (simp add: example_defs)
qed

text \<open>
  As stated, with \<open>idealAnswer\<close> replaced by the input's value in every case, the
  claim fails: an update without \<open>idealAnswer\<close> leaves the stored one in place.
\<close>

theorem saveQuestion_update_counterexample:
  "fst (saveQuestion ticking signedIn
       \<lparr>sq_id = Some ''Q'', sq_sessionId = ''S'', sq_orderIndex = 2,
        sq_question = ''Tell me more'', sq_idealAnswer = None\<rparr> store0)
     = Inr (Some \<lparr>q_id = Some ''Q'', q_sessionId = ''S'', q_orderIndex = 2,
                    q_question = ''Tell me more'', q_idealAnswer = Some ''Be brief'',
                    q_createdAt = 2000\<rparr>)
   \<and> q_idealAnswer questionQ = Some ''Be brief''"
  by (simp add: saveQuestion_def requireUser_def store_defs setQuestion_def example_defs)

section \<open>The tamper guard\<close>

text \<open>
  C2 (amended). For a signed-in caller who owns the session named in the input, and keys
  unique in each table: \<open>saveQuestion\<close> with the non-empty id of a stored question
  whose \<open>sessionId\<close> differs from the input's fails with NotFound, and so does
  \<open>saveResponse\<close> with the non-empty id of such a response (already at the question
  lookup, when the input's question is not in the session). Only lookups are issued: no
  row is modified.
\<close>

theorem tamper_guard:
  assumes "requireUser ctx = Inr u" and "primaryKeys d"
  shows "((\<exists>s\<in>set (sessions d). s_id s = sq_sessionId input \<and> s_userId s = user_id u)
          \<and> q \<in> set (questions d) \<and> q_id q = Some i \<and> i \<noteq> []
          \<and> sq_id input = Some i \<and> q_sessionId q \<noteq> sq_sessionId input \<longrightarrow>
            saveQuestion e ctx input d =
              (Inl (ActionError NOT_FOUND ''Question not found.''),
               d\<lparr>calls := calls d @ [Select InterviewSessions, Select InterviewQuestions]\<rparr>))
       \<and> ((\<exists>s\<in>set (sessions d). s_id s = sr_sessionId rinput \<and> s_userId s = user_id u)
          \<and> r \<in> set (responses d) \<and> r_id r = Some j \<and> j \<noteq> []
          \<and> sr_id rinput = Some j \<and> r_sessionId r \<noteq> sr_sessionId rinput \<longrightarrow>
            saveResponse e ctx rinput d =
              (if \<exists>q\<in>set (questions d). q_id q = Some (sr_questionId rinput) \<and> q_sessionId q = sr_sessionId rinput
               then (Inl (ActionError NOT_FOUND ''Response not found.''),
                     d\<lparr>calls := calls d @ [Select InterviewSessions, Select InterviewQuestions,
                                              Select InterviewResponses]\<rparr>)
               else (Inl (ActionError NOT_FOUND ''Question not found.''),
                     d\<lparr>calls := calls d @ [Select InterviewSessions, Select InterviewQuestions]\<rparr>)))"
proof (intro conjI impI)
  assume a: "(\<exists>s\<in>set (sessions d). s_id s = sq_sessionId input \<and> s_userId s = user_id u)
          \<and> q \<in> set (questions d) \<and> q_id q = Some i \<and> i \<noteq> []
          \<and> sq_id input = Some i \<and> q_sessionId q \<noteq> sq_sessionId input"
  then obtain s where
    fs: "first (filter (\<lambda>s. s_id s = sq_sessionId input \<and> s_userId s = user_id u) (sessions d)) = Some s"
    using first_filter_Some [of "sessions d" "\<lambda>s. s_id s = sq_sessionId input \<and> s_userId s = user_id u"]
    by blast
  from a have tr: "truthy (sq_id input) = Some i"
    by (simp add: truthy_Some)
  from assms(2) have "distinct (keys (map q_id (questions d)))"
    by (simp add: primaryKeys_def)
  with a have one: "filter (\<lambda>x. q_id x = Some i) (questions d) = [q]"
    by (intro filter_optkey_unique) simp_all
  from a have ne: "q_sessionId q \<noteq> sq_sessionId input" by simp
  show "saveQuestion e ctx input d =
              (Inl (ActionError NOT_FOUND ''Question not found.''),
               d\<lparr>calls := calls d @ [Select InterviewSessions, Select InterviewQuestions]\<rparr>)"
    using assms(1) fs tr one ne
    by (simp add: saveQuestion_def selectSessions_def selectQuestions_def logged_def first_take1
        first_Cons Let_def)
next
  assume a: "(\<exists>s\<in>set (sessions d). s_id s = sr_sessionId rinput \<and> s_userId s = user_id u)
          \<and> r \<in> set (responses d) \<and> r_id r = Some j \<and> j \<noteq> []
          \<and> sr_id rinput = Some j \<and> r_sessionId r \<noteq> sr_sessionId rinput"
  then obtain s where
    fs: "first (filter (\<lambda>s. s_id s = sr_sessionId rinput \<and> s_userId s = user_id u) (sessions d)) = Some s"
    using first_filter_Some [of "sessions d" "\<lambda>s. s_id s = sr_sessionId rinput \<and> s_userId s = user_id u"]
    by blast
  from a have tr: "truthy (sr_id rinput) = Some j"
    by (simp add: truthy_Some)
  from assms(2) have "distinct (keys (map r_id (responses d)))"
    by (simp add: primaryKeys_def)
  with a have one: "filter (\<lambda>x. r_id x = Some j) (responses d) = [r]"
    by (intro filter_optkey_unique) simp_all
  from a have ne: "r_sessionId r \<noteq> sr_sessionId rinput" by simp
  let ?Q = "\<lambda>q. q_id q = Some (sr_questionId rinput) \<and> q_sessionId q = sr_sessionId rinput"
  show "saveResponse e ctx rinput d =
              (if \<exists>q\<in>set (questions d). ?Q q
               then (Inl (ActionError NOT_FOUND ''Response not found.''),
                     d\<lparr>calls := calls d @ [Select InterviewSessions, Select InterviewQuestions,
                                              Select InterviewResponses]\<rparr>)
               else (Inl (ActionError NOT_FOUND ''Question not found.''),
                     d\<lparr>calls := calls d @ [Select InterviewSessions, Select InterviewQuestions]\<rparr>))"
  proof (cases "\<exists>q\<in>set (questions d). ?Q q")
    case True
    from first_filter_Some [OF True] obtain qq where
      fq: "first (filter ?Q (questions d)) = Some qq" by blast
    show ?thesis
      using assms(1) fs fq tr one ne True
      by (simp add: saveResponse_def selectSessions_def selectQuestions_def selectResponses_def
          logged_def first_take1 first_Cons Let_def)
  next
    case False
    then have fq: "first (filter ?Q (questions d)) = None"
      by (simp add: first_None filter_empty_conv)
    show ?thesis
      using assms(1) fs fq False
      by (simp add: saveResponse_def selectSessions_def selectQuestions_def logged_def first_take1)
  qed
qed

theorem tamper_guard_witness:
  "requireUser signedIn = Inr alice \<and> primaryKeys store0
   \<and> questionP \<in> set (questions store0) \<and> q_sessionId questionP = ''T''
   \<and> responseX \<in> set (responses store0) \<and> r_sessionId responseX = ''T''
   \<and> saveQuestion ticking signedIn
         \<lparr>sq_id = Some ''P'', sq_sessionId = ''S'', sq_orderIndex = 3, sq_question = ''Mine now'',
          sq_idealAnswer = None\<rparr> store0
       = (Inl (ActionError NOT_FOUND ''Question not found.''),
          store0\<lparr>calls := [Select InterviewSessions, Select InterviewQuestions]\<rparr>)
   \<and> saveResponse ticking signedIn
         \<lparr>sr_id = Some ''X'', sr_sessionId = ''S'', sr_questionId = ''Q'', sr_answer = ''Mine now'',
          sr_score = None, sr_feedback = None\<rparr> store0
       = (Inl (ActionError NOT_FOUND ''Response not found.''),
          store0\<lparr>calls := [Select InterviewSessions, Select InterviewQuestions,
                             Select InterviewResponses]\<rparr>)"
proof -
  have pk: "primaryKeys store0"
    by (simp add: primaryKeys_def example_defs)
  show ?thesis
    using pk requireUser_signedIn
      tamper_guard [OF requireUser_signedIn pk, where e = ticking and q = questionP and i = "''P''"
        and r = responseX and j = "''X''"
        and input = "\<lparr>sq_id = Some ''P'', sq_sessionId = ''S'', sq_orderIndex = 3, sq_question = ''Mine now'',
          sq_idealAnswer = None\<rparr>"
        and rinput = "\<lparr>sr_id = Some ''X'', sr_sessionId = ''S'', sr_questionId = ''Q'', sr_answer = ''Mine now'',
          sr_score = None, sr_feedback = None\<rparr>"]
    by (simp add: example_defs)
qed

text \<open>
  As stated, for every stored row, the claim fails for a row whose id is the empty
  string: \<open>if (input.id)\<close> takes that id for absent, and the call inserts a new row
  (or fails with the store's error) instead of answering NotFound.
\<close>

theorem tamper_guard_counterexample:
  "questionE \<in> set (questions storeE) \<and> q_id questionE = Some [] \<and> q_sessionId questionE = ''T''
   \<and> saveQuestion ticking signedIn
         \<lparr>sq_id = Some [], sq_sessionId = ''S'', sq_orderIndex = 3, sq_question = ''Mine now'',
          sq_idealAnswer = None\<rparr> storeE
       = (Inr (Some \<lparr>q_id = None, q_sessionId = ''S'', q_orderIndex = 3, q_question = ''Mine now'',
                      q_idealAnswer = None, q_createdAt = 2000\<rparr>),
          storeE\<lparr>questions := [questionQ, questionP, questionE,
                      \<lparr>q_id = None, q_sessionId = ''S'', q_orderIndex = 3, q_question = ''Mine now'',
                       q_idealAnswer = None, q_createdAt = 2000\<rparr>],
                 calls := [Select InterviewSessions, Insert InterviewQuestions]\<rparr>)
   \<and> fst (saveQuestion strict signedIn
         \<lparr>sq_id = Some [], sq_sessionId = ''S'', sq_orderIndex = 3, sq_question = ''Mine now'',
          sq_idealAnswer = None\<rparr> storeE) = Inl StoreError
   \<and> responseE \<in> set (responses storeE) \<and> r_id responseE = Some [] \<and> r_sessionId responseE = ''T''
   \<and> fst (saveResponse ticking signedIn
         \<lparr>sr_id = Some [], sr_sessionId = ''S'', sr_questionId = ''Q'', sr_answer = ''Mine now'',
          sr_score = None, sr_feedback = None\<rparr> storeE)
       = Inr (Some \<lparr>r_id = None, r_sessionId = ''S'', r_questionId = ''Q'', r_answer = ''Mine now'',
                     r_score = None, r_feedback = None, r_createdAt = 2000\<rparr>)"
  by (simp add: saveQuestion_def saveResponse_def requireUser_def store_defs example_defs)

section \<open>Listing responses\<close>

text \<open>
  C4 (amended). For a signed-in caller, \<open>listResponses\<close> fails with NotFound when a
  non-empty \<open>sessionId\<close> filter names no session of the caller. Otherwise it returns,
  in storage order, exactly the responses whose session the caller owns and that match
  each filter that is provided and non-empty; an empty-string filter counts as not
  provided. Every returned row is a stored response of a session the caller owns.
\<close>

theorem listResponses_owned_and_filtered:
  assumes "requireUser ctx = Inr u"
  shows "((\<exists>x. truthy (input_sessionId input) = Some x
             \<and> \<not> (\<exists>s\<in>set (sessions d). s_userId s = user_id u \<and> s_id s = x)) \<longrightarrow>
            listResponses ctx input d =
              (Inl (ActionError NOT_FOUND ''Session not found.''),
               d\<lparr>calls := calls d @ [Select InterviewSessions]\<rparr>))
       \<and> (\<not> (\<exists>x. truthy (input_sessionId input) = Some x
             \<and> \<not> (\<exists>s\<in>set (sessions d). s_userId s = user_id u \<and> s_id s = x)) \<longrightarrow>
            listResponses ctx input d =
              (Inr (filter
                      (\<lambda>r. (\<exists>s\<in>set (sessions d). s_userId s = user_id u \<and> s_id s = r_sessionId r)
                         \<and> (\<forall>x. truthy (input_sessionId input) = Some x \<longrightarrow> r_sessionId r = x)
                         \<and> (\<forall>y. truthy (input_questionId input) = Some y \<longrightarrow> r_questionId r = y))
                      (responses d)),
               d\<lparr>calls := calls d @ [Select InterviewSessions, Select InterviewResponses]\<rparr>))
       \<and> (\<forall>rs d'. listResponses ctx input d = (Inr rs, d') \<longrightarrow>
            (\<forall>r\<in>set rs. r \<in> set (responses d)
               \<and> (\<exists>s\<in>set (sessions d). s_userId s = user_id u \<and> s_id s = r_sessionId r)))"
proof -
  let ?owned = "set (map s_id (filter (\<lambda>s. s_userId s = user_id u) (sessions d)))"
  have owned: "x \<in> ?owned \<longleftrightarrow> (\<exists>s\<in>set (sessions d). s_userId s = user_id u \<and> s_id s = x)" for x
    by auto
  have opt: "(case v of None \<Rightarrow> True | Some x \<Rightarrow> a = x) \<longleftrightarrow> (\<forall>x. v = Some x \<longrightarrow> a = x)"
    for v :: "string option" and a
    by (cases v) auto
  have eq: "listResponses ctx input d =
     (if \<exists>x. truthy (input_sessionId input) = Some x
             \<and> \<not> (\<exists>s\<in>set (sessions d). s_userId s = user_id u \<and> s_id s = x)
      then (Inl (ActionError NOT_FOUND ''Session not found.''),
               d\<lparr>calls := calls d @ [Select InterviewSessions]\<rparr>)
      else (Inr (filter
                      (\<lambda>r. (\<exists>s\<in>set (sessions d). s_userId s = user_id u \<and> s_id s = r_sessionId r)
                         \<and> (\<forall>x. truthy (input_sessionId input) = Some x \<longrightarrow> r_sessionId r = x)
                         \<and> (\<forall>y. truthy (input_questionId input) = Some y \<longrightarrow> r_questionId r = y))
                      (responses d)),
               d\<lparr>calls := calls d @ [Select InterviewSessions, Select InterviewResponses]\<rparr>))"
  proof (cases "truthy (input_sessionId input)")
    case None
    then show ?thesis
      using assms
      by (simp add: listResponses_def selectSessions_def selectResponses_def logged_def Let_def
          owned opt del: set_map)
  next
    case (Some x)
    then show ?thesis
      using assms
      by (simp add: listResponses_def selectSessions_def selectResponses_def logged_def Let_def
          owned opt del: set_map)
  qed
  show ?thesis
    unfolding eq by (auto split: if_splits)
qed

theorem listResponses_owned_and_filtered_witness:
  "requireUser signedIn = Inr alice
   \<and> listResponses signedIn (Some \<lparr>lr_sessionId = Some ''T'', lr_questionId = None\<rparr>) store0
       = (Inl (ActionError NOT_FOUND ''Session not found.''), store0\<lparr>calls := [Select InterviewSessions]\<rparr>)
   \<and> listResponses signedIn None store0
       = (Inr [responseR], store0\<lparr>calls := [Select InterviewSessions, Select InterviewResponses]\<rparr>)
   \<and> listResponses signedIn (Some \<lparr>lr_sessionId = Some ''S'', lr_questionId = Some ''P''\<rparr>) store0
       = (Inr [], store0\<lparr>calls := [Select InterviewSessions, Select InterviewResponses]\<rparr>)"
  using requireUser_signedIn
    listResponses_owned_and_filtered [OF requireUser_signedIn, of
      "Some \<lparr>lr_sessionId = Some ''T'', lr_questionId = None\<rparr>" store0]
    listResponses_owned_and_filtered [OF requireUser_signedIn, of None store0]
    listResponses_owned_and_filtered [OF requireUser_signedIn, of
      "Some \<lparr>lr_sessionId = Some ''S'', lr_questionId = Some ''P''\<rparr>" store0]
  by (simp add: truthy_def input_sessionId_def input_questionId_def example_defs)

text \<open>
  As stated, with every provided filter applied, the claim fails for empty-string
  filters: response R of session S and question Q is returned for the filters
  \<open>sessionId = ""\<close> and \<open>questionId = ""\<close>.
\<close>

theorem listResponses_counterexample:
  "listResponses signedIn (Some \<lparr>lr_sessionId = Some [], lr_questionId = Some []\<rparr>) store0
     = (Inr [responseR], store0\<lparr>calls := [Select InterviewSessions, Select InterviewResponses]\<rparr>)
   \<and> r_sessionId responseR = ''S'' \<and> r_questionId responseR = ''Q''"
  by (simp add: listResponses_def requireUser_def store_defs input_sessionId_def input_questionId_def
      example_defs)

end
